theory Spec2Isabelle
  imports Complex_Main "HOL-Library.Sublist"
begin

section \<open>JavaScript strings, maps and sorting\<close>

text \<open>
  Strings are lists of 8-bit characters (code units below 256); the code only compares
  against ASCII literals. \<open>isSpace\<close> is the class \<open>\s\<close> (and what \<open>trim\<close> strips) within
  that range, \<open>isDigit\<close> the class \<open>\d\<close>.
\<close>

definition isSpace :: "char \<Rightarrow> bool" where
  "isSpace c = (c \<in> set [CHR 0x09, CHR 0x0A, CHR 0x0B, CHR 0x0C, CHR 0x0D, CHR 0x20, CHR 0xA0])"

definition isDigit :: "char \<Rightarrow> bool" where
  "isDigit c = (c \<in> set ''0123456789'')"

definition trim :: "string \<Rightarrow> string" where
  "trim s = rev (dropWhile isSpace (rev (dropWhile isSpace s)))"

text \<open>
  \<open>toLowerCase\<close> on the code units below 256. An upper-case ASCII letter has the codes 65
  to 90, that is the bits \<open>010xxxxx\<close> with \<open>xxxxx\<close> from 1 to 26; an upper-case Latin-1
  letter has the codes 192 to 222 except 215 (the multiplication sign), that is the bits
  \<open>110xxxxx\<close> with \<open>xxxxx\<close> neither 23 nor 31. In both ranges the lower-case form has bit
  5 set; every other code unit is left as it is. (The constructor \<open>Char\<close> lists the bits
  from the lowest.)
\<close>

fun toLowerChar :: "char \<Rightarrow> char" where
  "toLowerChar (Char b0 b1 b2 b3 b4 b5 b6 b7) =
     (if \<not> b7 \<and> b6 \<and> \<not> b5 \<and> (b0 \<or> b1 \<or> b2 \<or> b3 \<or> b4) \<and>
         \<not> (b4 \<and> b3 \<and> (b2 \<or> (b1 \<and> b0)))
      then Char b0 b1 b2 b3 b4 True b6 b7
      else if b7 \<and> b6 \<and> \<not> b5 \<and> \<not> (b0 \<and> b1 \<and> b2 \<and> b4)
      then Char b0 b1 b2 b3 b4 True b6 b7
      else Char b0 b1 b2 b3 b4 b5 b6 b7)"

definition toLowerCase :: "string \<Rightarrow> string" where
  "toLowerCase s = map toLowerChar s"

text \<open>
  \<open>s.startsWith(t)\<close> and \<open>s.includes(t)\<close>, and the test that the literal \<open>key\<close> (in lower
  case) stands at the start of \<open>s\<close> when case is ignored.
\<close>

fun startsWith :: "string \<Rightarrow> string \<Rightarrow> bool" where
  "startsWith s [] = True"
| "startsWith [] (t # ts) = False"
| "startsWith (c # cs) (t # ts) = (if c = t then startsWith cs ts else False)"

fun strIncludes :: "string \<Rightarrow> string \<Rightarrow> bool" where
  "strIncludes [] t = (t = [])"
| "strIncludes (c # cs) t = (if startsWith (c # cs) t then True else strIncludes cs t)"

fun startsWithCI :: "string \<Rightarrow> string \<Rightarrow> bool" where
  "startsWithCI s [] = True"
| "startsWithCI [] (k # ks) = False"
| "startsWithCI (c # cs) (k # ks) = (if toLowerChar c = k then startsWithCI cs ks else False)"

text \<open>
  \<open>s.split(/\s+/)\<close>: the pieces between maximal runs of white space; a run at either end
  leaves an empty piece there, and the empty string splits into one empty piece.
\<close>

fun splitWsFrom :: "bool \<Rightarrow> string \<Rightarrow> string \<Rightarrow> string list" where
  "splitWsFrom inWs cur [] = [cur]"
| "splitWsFrom inWs cur (c # cs) =
     (if isSpace c then
        (if inWs then splitWsFrom True cur cs else cur # splitWsFrom True [] cs)
      else splitWsFrom False (cur @ [c]) cs)"

definition splitWs :: "string \<Rightarrow> string list" where
  "splitWs s = splitWsFrom False [] s"

text \<open>
  \<open>style.match(/<prop>:\s*([^;]+)/i)[1]\<close>, with \<open>key\<close> the lower-case property name and its
  colon. \<open>captureValue\<close> is the part after the colon at one start position: the white space
  is skipped and the text up to the next semicolon is captured; when nothing but white space
  stands before the semicolon (or the end), backtracking captures the last blank alone.
  \<open>matchDecl\<close> tries the start positions from left to right.
\<close>

definition captureValue :: "string \<Rightarrow> string option" where
  "captureValue rest =
     (let ws = takeWhile isSpace rest;
          v = takeWhile (\<lambda>c. c \<noteq> CHR '';'') (dropWhile isSpace rest)
      in if v \<noteq> [] then Some v
         else if ws \<noteq> [] then Some [last ws]
         else None)"

fun matchDecl :: "string \<Rightarrow> string \<Rightarrow> string option" where
  "matchDecl key [] = None"
| "matchDecl key (c # cs) =
     (if startsWithCI (c # cs) key then
        (case captureValue (drop (length key) (c # cs)) of
           Some v \<Rightarrow> Some v
         | None \<Rightarrow> matchDecl key cs)
      else matchDecl key cs)"

text \<open>
  A JavaScript \<open>Map\<close> with string keys and counts: an association list in insertion order
  with each key once. \<open>mapSet\<close> is \<open>m.set(k, v)\<close> (an existing key keeps its place),
  \<open>mapGetOr0\<close> is \<open>m.get(k) || 0\<close>.
\<close>

type_synonym 'k freqMap = "('k \<times> nat) list"

fun mapSet :: "'k freqMap \<Rightarrow> 'k \<Rightarrow> nat \<Rightarrow> 'k freqMap" where
  "mapSet [] k v = [(k, v)]"
| "mapSet ((k', c) # m) k v = (if k' = k then (k', v) # m else (k', c) # mapSet m k v)"

definition mapGetOr0 :: "'k freqMap \<Rightarrow> 'k \<Rightarrow> nat" where
  "mapGetOr0 m k = (case map_of m k of Some c \<Rightarrow> c | None \<Rightarrow> 0)"

definition mapIncr :: "'k freqMap \<Rightarrow> 'k \<Rightarrow> nat \<Rightarrow> 'k freqMap" where
  "mapIncr m k n = mapSet m k (mapGetOr0 m k + n)"

text \<open>
  \<open>[...m.entries()].sort((a, b) => b[1] - a[1])\<close>: descending by count; the sort is stable,
  so equal counts keep their insertion order.
\<close>

definition sortByCountDesc :: "'k freqMap \<Rightarrow> 'k freqMap" where
  "sortByCountDesc m = sort_key (\<lambda>e. - int (snd e)) m"

section \<open>The colour library\<close>

text \<open>
  The colour arithmetic is done by the library chroma-js, which the functions below take as
  the parameter \<open>lib\<close>. \<open>chroma lib s\<close> is \<open>chroma(s)\<close>, \<open>None\<close> when it throws;
  \<open>deltaE lib a b\<close> is \<open>chroma.deltaE(a, b)\<close> on two colour strings, \<open>None\<close> when it throws;
  \<open>luminance\<close>, \<open>chromaOf\<close>, \<open>hex\<close> and \<open>luminanceHex\<close> are \<open>c.luminance()\<close>,
  \<open>c.chroma()\<close>, \<open>c.hex()\<close> and \<open>c.luminance(l).hex()\<close> on a parsed colour; of these
  \<open>chromaOf\<close> may throw (\<open>None\<close>). Numbers are reals. Calls whose result the code never
  uses (the luminance map filled after \<open>processColors\<close>, \<open>c.saturate().hex()\<close> in the
  accent filter) are left out.
\<close>

record 'c chromaLib =
  chroma :: "string \<Rightarrow> 'c option"
  deltaE :: "string \<Rightarrow> string \<Rightarrow> real option"
  luminance :: "'c \<Rightarrow> real"
  chromaOf :: "'c \<Rightarrow> real option"
  hex :: "'c \<Rightarrow> string"
  luminanceHex :: "'c \<Rightarrow> real \<Rightarrow> string"

section \<open>Colour clustering\<close>

definition isValidColor :: "'c chromaLib \<Rightarrow> string \<Rightarrow> bool" where
  "isValidColor lib color =
     (if toLowerCase color \<in> set [''transparent'', ''inherit'', ''initial'', ''currentcolor'', ''none'']
      then False
      else chroma lib color \<noteq> None)"

text \<open>
  \<open>processColors\<close>: the entries sorted by frequency, then the greedy pass. \<open>isSimilar\<close> is
  the \<open>some\<close> callback over the colours accepted so far: a comparison that throws counts as
  not similar.
\<close>

definition threshold :: real where
  "threshold = 0.15"

definition tooClose :: "'c chromaLib \<Rightarrow> string \<Rightarrow> string \<Rightarrow> bool" where
  "tooClose lib color existingColor =
     (case deltaE lib color existingColor of
        Some delta \<Rightarrow> delta < threshold * 100
      | None \<Rightarrow> False)"

definition isSimilar :: "'c chromaLib \<Rightarrow> string list \<Rightarrow> string \<Rightarrow> bool" where
  "isSimilar lib uniqueColors color = list_ex (tooClose lib color) uniqueColors"

fun dedupLoop :: "'c chromaLib \<Rightarrow> string list \<Rightarrow> string list \<Rightarrow> string list" where
  "dedupLoop lib uniqueColors [] = uniqueColors"
| "dedupLoop lib uniqueColors (color # rest) =
     (if \<not> isSimilar lib uniqueColors color
      then dedupLoop lib (uniqueColors @ [color]) rest
      else dedupLoop lib uniqueColors rest)"

definition processColors :: "'c chromaLib \<Rightarrow> string freqMap \<Rightarrow> string list" where
  "processColors lib colorMap = dedupLoop lib [] (map fst (sortByCountDesc colorMap))"

record ColorCategorySet =
  primary :: "string list"
  secondary :: "string list"
  accent :: "string list"
  neutral :: "string list"
  allColors :: "string list"

text \<open>
  The second half of \<open>extractColors\<close>, from the collected \<open>colorMap\<close> on: the categories
  are cut from \<open>sortedColors\<close>, the keys sorted by frequency that the library parses, and
  \<open>all\<close> is the result of \<open>processColors\<close>. Inside the two filters a call that throws makes
  the filter answer false.
\<close>

definition sortedColors :: "'c chromaLib \<Rightarrow> string freqMap \<Rightarrow> string list" where
  "sortedColors lib colorMap =
     filter (\<lambda>color. chroma lib color \<noteq> None) (map fst (sortByCountDesc colorMap))"

definition isAccent :: "'c chromaLib \<Rightarrow> string list \<Rightarrow> string list \<Rightarrow> string \<Rightarrow> bool" where
  "isAccent lib prim sec color =
     (case chroma lib color of
        None \<Rightarrow> False
      | Some c \<Rightarrow>
          color \<notin> set prim \<and> color \<notin> set sec \<and>
          (case chromaOf lib c of None \<Rightarrow> False | Some v \<Rightarrow> v > 50))"

definition isNeutral :: "'c chromaLib \<Rightarrow> string \<Rightarrow> bool" where
  "isNeutral lib color =
     (case chroma lib color of
        None \<Rightarrow> False
      | Some c \<Rightarrow>
          (case chromaOf lib c of
             None \<Rightarrow> False
           | Some v \<Rightarrow> v < 30 \<and> (luminance lib c > 0.7 \<or> luminance lib c < 0.3)))"

definition categorizeColors :: "'c chromaLib \<Rightarrow> string freqMap \<Rightarrow> ColorCategorySet" where
  "categorizeColors lib colorMap =
     (let processedColors = processColors lib colorMap;
          sorted = sortedColors lib colorMap;
          prim = take 3 sorted;
          sec = take 3 (filter (\<lambda>color. color \<notin> set prim) sorted);
          acc = take 3 (filter (isAccent lib prim sec) sorted);
          neu = take 4 (filter (isNeutral lib) sorted)
      in \<lparr> primary = prim, secondary = sec, accent = acc, neutral = neu,
           allColors = processedColors \<rparr>)"

section \<open>The document\<close>

text \<open>
  The extraction functions take the Cheerio instance \<open>$\<close> as their parameter; here it is
  the record \<open>page\<close>, with nodes of any type \<open>'e\<close>. \<open>select page sel\<close> is \<open>$(sel)\<close>, the
  matched nodes in document order, and \<open>add page xs ys\<close> is \<open>xs.add(ys)\<close>, the union of two
  selections. \<open>attr\<close>, \<open>css\<close>, \<open>tagName\<close>, \<open>textOf\<close> and \<open>childCount\<close> are
  \<open>$(el).attr(name)\<close>, \<open>$(el).css(prop)\<close>, \<open>$(el).prop('tagName')\<close>, \<open>$(el).text()\<close> and
  \<open>$(el).children().length\<close>, with \<open>None\<close> for \<open>undefined\<close>; \<open>nodeType\<close> and \<open>nodeValue\<close>
  are the DOM properties of a node. The text of a selection is the concatenation of the
  texts of its nodes.
\<close>

record 'e cheerio =
  select :: "string \<Rightarrow> 'e list"
  add :: "'e list \<Rightarrow> 'e list \<Rightarrow> 'e list"
  attr :: "'e \<Rightarrow> string \<Rightarrow> string option"
  css :: "'e \<Rightarrow> string \<Rightarrow> string option"
  tagName :: "'e \<Rightarrow> string"
  textOf :: "'e \<Rightarrow> string"
  childCount :: "'e \<Rightarrow> nat"
  nodeType :: "'e \<Rightarrow> nat"
  nodeValue :: "'e \<Rightarrow> string"

datatype error =
    TypeError
  | ReferenceError string
  | FetchError string
  | IOError string
  | AnalysisFailed error

fun foldE :: "('s \<Rightarrow> 'a \<Rightarrow> error + 's) \<Rightarrow> 's \<Rightarrow> 'a list \<Rightarrow> error + 's" where
  "foldE f s [] = Inr s"
| "foldE f s (x # xs) = (case f s x of Inl e \<Rightarrow> Inl e | Inr s' \<Rightarrow> foldE f s' xs)"

section \<open>Token collection: colours\<close>

definition colorProperties :: "string list" where
  "colorProperties =
     [''color'', ''background-color'', ''border-color'',
      ''background'', ''border'', ''box-shadow'', ''fill'', ''stroke'']"

definition colorClasses :: "string list" where
  "colorClasses =
     [''bg-'', ''text-'', ''border-'', ''btn-'', ''alert-'', ''badge-'',
      ''table-'', ''navbar-'', ''list-group-item-'']"

definition colorNames :: "string list" where
  "colorNames =
     [''primary'', ''secondary'', ''success'', ''danger'', ''warning'',
      ''info'', ''light'', ''dark'', ''white'', ''black'', ''transparent'',
      ''blue'', ''indigo'', ''purple'', ''pink'', ''red'', ''orange'',
      ''yellow'', ''green'', ''teal'', ''cyan'', ''gray'', ''grey'']"

definition addColor :: "'c chromaLib \<Rightarrow> string freqMap \<Rightarrow> string \<Rightarrow> string freqMap" where
  "addColor lib colorMap color =
     (if isValidColor lib color then mapIncr colorMap color 1 else colorMap)"

text \<open>The body of the loop over \<open>$('[style]')\<close>: one regular expression per colour property.\<close>

definition inlineStyleColors ::
  "'c chromaLib \<Rightarrow> 'e cheerio \<Rightarrow> string freqMap \<Rightarrow> 'e \<Rightarrow> string freqMap" where
  "inlineStyleColors lib page colorMap el =
     (case attr page el ''style'' of
        None \<Rightarrow> colorMap
      | Some style \<Rightarrow>
          foldl (\<lambda>m prop.
                   case matchDecl (prop @ '':'') style of
                     None \<Rightarrow> m
                   | Some v \<Rightarrow> addColor lib m (trim v))
                colorMap colorProperties)"

text \<open>The body of the loop over the SVG elements: \<open>fill\<close>, then \<open>stroke\<close>.\<close>

definition svgPaint :: "'c chromaLib \<Rightarrow> string freqMap \<Rightarrow> string option \<Rightarrow> string freqMap" where
  "svgPaint lib colorMap paint =
     (case paint of
        None \<Rightarrow> colorMap
      | Some p \<Rightarrow>
          if p \<noteq> [] \<and> p \<noteq> ''none'' \<and> p \<noteq> ''transparent''
          then addColor lib colorMap p
          else colorMap)"

definition svgColors ::
  "'c chromaLib \<Rightarrow> 'e cheerio \<Rightarrow> string freqMap \<Rightarrow> 'e \<Rightarrow> string freqMap" where
  "svgColors lib page colorMap el =
     svgPaint lib (svgPaint lib colorMap (attr page el ''fill'')) (attr page el ''stroke'')"

text \<open>
  The body of the loop over \<open>$('[class]')\<close>: every class name against every prefix; a
  known colour name after the prefix records the symbolic colour \<open>var(--name)\<close>, which is
  not validated. \<open>$(el).attr('class').split(...)\<close> throws when the attribute is absent.
\<close>

definition classNameColors :: "string freqMap \<Rightarrow> string \<Rightarrow> string freqMap" where
  "classNameColors colorMap className =
     foldl (\<lambda>m pre.
              if startsWith className pre then
                (let colorName = drop (length pre) className
                 in if colorName \<in> set colorNames
                    then mapIncr m (''var(--'' @ colorName @ '')'') 1
                    else m)
              else m)
           colorMap colorClasses"

definition classColors :: "'e cheerio \<Rightarrow> string freqMap \<Rightarrow> 'e \<Rightarrow> error + string freqMap" where
  "classColors page colorMap el =
     (case attr page el ''class'' of
        None \<Rightarrow> Inl TypeError
      | Some cls \<Rightarrow> Inr (foldl classNameColors colorMap (splitWs cls)))"

definition collectColors :: "'c chromaLib \<Rightarrow> 'e cheerio \<Rightarrow> error + string freqMap" where
  "collectColors lib page =
     (let m1 = foldl (inlineStyleColors lib page) [] (select page ''[style]'');
          m2 = foldl (svgColors lib page) m1 (select page ''svg [fill], svg [stroke]'')
      in foldE (classColors page) m2 (select page ''[class]''))"

definition extractColors :: "'c chromaLib \<Rightarrow> 'e cheerio \<Rightarrow> error + ColorCategorySet" where
  "extractColors lib page =
     (case collectColors lib page of
        Inl e \<Rightarrow> Inl e
      | Inr colorMap \<Rightarrow> Inr (categorizeColors lib colorMap))"

section \<open>Typography\<close>

text \<open>
  The priority list of \<open>normalizeFontFamily\<close>. Every pattern is a literal matched without
  regard to case, so \<open>pattern.test(s)\<close> holds when the lower-cased \<open>s\<close> contains the
  lower-case literal.
\<close>

definition fontFamilyPatterns :: "(string \<times> string) list" where
  "fontFamilyPatterns =
     [(''arial'', ''Arial, sans-serif''),
      (''helvetica'', ''Helvetica, Arial, sans-serif''),
      (''times new roman'', ''Times New Roman, serif''),
      (''times'', ''Times, serif''),
      (''courier'', ''Courier, monospace''),
      (''verdana'', ''Verdana, sans-serif''),
      (''georgia'', ''Georgia, serif''),
      (''palatino'', ''Palatino, serif''),
      (''garamond'', ''Garamond, serif''),
      (''bookman'', ''Bookman, serif''),
      (''avant garde'', ''Avant Garde, sans-serif''),
      (''trebuchet'', ''Trebuchet MS, sans-serif''),
      (''impact'', ''Impact, sans-serif''),
      (''comic sans'', ''Comic Sans MS, cursive''),
      (''roboto'', ''Roboto, sans-serif''),
      (''open sans'', ''Open Sans, sans-serif''),
      (''lato'', ''Lato, sans-serif''),
      (''montserrat'', ''Montserrat, sans-serif''),
      (''raleway'', ''Raleway, sans-serif''),
      (''poppins'', ''Poppins, sans-serif''),
      (''nunito'', ''Nunito, sans-serif''),
      (''playfair'', ''Playfair Display, serif''),
      (''merriweather'', ''Merriweather, serif''),
      (''ubuntu'', ''Ubuntu, sans-serif''),
      (''source sans'', ''Source Sans Pro, sans-serif''),
      (''source serif'', ''Source Serif Pro, serif''),
      (''source code'', ''Source Code Pro, monospace''),
      (''fira'', ''Fira Sans, sans-serif''),
      (''noto'', ''Noto Sans, sans-serif''),
      (''pt sans'', ''PT Sans, sans-serif''),
      (''pt serif'', ''PT Serif, serif''),
      (''muli'', ''Muli, sans-serif''),
      (''titillium'', ''Titillium Web, sans-serif''),
      (''karla'', ''Karla, sans-serif''),
      (''inter'', ''Inter, sans-serif''),
      (''sans-serif'', ''sans-serif''),
      (''serif'', ''serif''),
      (''monospace'', ''monospace''),
      (''cursive'', ''cursive''),
      (''fantasy'', ''fantasy''),
      (''system-ui'', ''system-ui'')]"

definition patternTest :: "string \<Rightarrow> string \<Rightarrow> bool" where
  "patternTest pat s = strIncludes (toLowerCase s) pat"

text \<open>The \<open>for\<close> loop over the patterns: the first one that tests true returns.\<close>

fun firstMatch :: "(string \<times> string) list \<Rightarrow> string \<Rightarrow> string option" where
  "firstMatch [] s = None"
| "firstMatch ((pat, canon) # ps) s =
     (if patternTest pat s then Some canon else firstMatch ps s)"

text \<open>\<open>fontFamily.replace(/['"]/g, '')\<close> removes every quote character.\<close>

definition stripQuotes :: "string \<Rightarrow> string" where
  "stripQuotes s = filter (\<lambda>c. c \<noteq> CHR 0x27 \<and> c \<noteq> CHR 0x22) s"

definition normalizeFontFamily :: "string \<Rightarrow> string" where
  "normalizeFontFamily fontFamily =
     (let normalized = trim (stripQuotes fontFamily)
      in case firstMatch fontFamilyPatterns normalized of
           Some canon \<Rightarrow> canon
         | None \<Rightarrow> normalized)"

record typoMaps =
  fontFamiliesM :: "string freqMap"
  fontSizesM :: "string freqMap"
  fontWeightsM :: "string freqMap"
  lineHeightsM :: "string freqMap"
  letterSpacingsM :: "string freqMap"
  textTransformsM :: "string freqMap"
  textDecorationsM :: "string freqMap"

definition emptyTypoMaps :: typoMaps where
  "emptyTypoMaps =
     \<lparr> fontFamiliesM = [], fontSizesM = [], fontWeightsM = [], lineHeightsM = [],
       letterSpacingsM = [], textTransformsM = [], textDecorationsM = [] \<rparr>"

text \<open>
  The body of the loop over \<open>$('[style]')\<close>. The font family is normalised; the other
  values are trimmed only.
\<close>

definition countDecl :: "string \<Rightarrow> string \<Rightarrow> string freqMap \<Rightarrow> string freqMap" where
  "countDecl key style m =
     (case matchDecl key style of
        None \<Rightarrow> m
      | Some v \<Rightarrow> mapIncr m (trim v) 1)"

definition inlineStyleTypo :: "'e cheerio \<Rightarrow> typoMaps \<Rightarrow> 'e \<Rightarrow> typoMaps" where
  "inlineStyleTypo page maps el =
     (case attr page el ''style'' of
        None \<Rightarrow> maps
      | Some style \<Rightarrow>
          \<lparr> fontFamiliesM =
              (case matchDecl ''font-family:'' style of
                 None \<Rightarrow> fontFamiliesM maps
               | Some v \<Rightarrow> mapIncr (fontFamiliesM maps) (normalizeFontFamily v) 1),
            fontSizesM = countDecl ''font-size:'' style (fontSizesM maps),
            fontWeightsM = countDecl ''font-weight:'' style (fontWeightsM maps),
            lineHeightsM = countDecl ''line-height:'' style (lineHeightsM maps),
            letterSpacingsM = countDecl ''letter-spacing:'' style (letterSpacingsM maps),
            textTransformsM = countDecl ''text-transform:'' style (textTransformsM maps),
            textDecorationsM = countDecl ''text-decoration:'' style (textDecorationsM maps) \<rparr>)"

text \<open>The body of the loop over the class names of one element of \<open>$('[class]')\<close>.\<close>

definition fontWeightNames :: "string list" where
  "fontWeightNames =
     [''light'', ''normal'', ''bold'', ''bolder'', ''semibold'',
      ''100'', ''200'', ''300'', ''400'', ''500'', ''600'', ''700'', ''800'', ''900'']"

definition fontSizeNames :: "string list" where
  "fontSizeNames = [''1'', ''2'', ''3'', ''4'', ''5'', ''6'', ''sm'', ''md'', ''lg'', ''xl'']"

definition classNameTypo :: "typoMaps \<Rightarrow> string \<Rightarrow> typoMaps" where
  "classNameTypo maps className =
     (let m1 = (if startsWith className ''fw-'' \<and> drop 3 className \<in> set fontWeightNames
                then maps\<lparr> fontWeightsM := mapIncr (fontWeightsM maps) (drop 3 className) 1 \<rparr>
                else maps);
          m2 = (if startsWith className ''fs-'' \<and> drop 3 className \<in> set fontSizeNames
                then m1\<lparr> fontSizesM :=
                          mapIncr (fontSizesM m1) (''var(--fs-'' @ drop 3 className @ '')'') 1 \<rparr>
                else m1)
      in if className \<in> set [''text-uppercase'', ''text-lowercase'', ''text-capitalize'']
         then m2\<lparr> textTransformsM := mapIncr (textTransformsM m2) (drop 5 className) 1 \<rparr>
         else m2)"

definition classTypo :: "'e cheerio \<Rightarrow> typoMaps \<Rightarrow> 'e \<Rightarrow> error + typoMaps" where
  "classTypo page maps el =
     (case attr page el ''class'' of
        None \<Rightarrow> Inl TypeError
      | Some cls \<Rightarrow> Inr (foldl classNameTypo maps (splitWs cls)))"

text \<open>
  The body of the loop over the headings. \<open>headingLevel\<close> is
  \<open>parseInt(tagName.substring(1))\<close> as the template string prints it: the leading digits
  without leading zeros, \<open>NaN\<close> when there are none.
\<close>

definition headingLevel :: "string \<Rightarrow> string" where
  "headingLevel tag =
     (let digits = takeWhile isDigit (dropWhile isSpace (drop 1 tag))
      in if digits = [] then ''NaN''
         else if dropWhile (\<lambda>c. c = CHR ''0'') digits = [] then ''0''
         else dropWhile (\<lambda>c. c = CHR ''0'') digits)"

definition headingTypo :: "'e cheerio \<Rightarrow> typoMaps \<Rightarrow> 'e \<Rightarrow> typoMaps" where
  "headingTypo page maps el =
     (let level = headingLevel (toLowerCase (tagName page el));
          m1 = maps\<lparr> fontWeightsM := mapIncr (fontWeightsM maps) (''heading-'' @ level) 1 \<rparr>;
          m2 = (case css page el ''font-family'' of
                  None \<Rightarrow> m1
                | Some fontFamily \<Rightarrow>
                    if fontFamily = [] then m1
                    else m1\<lparr> fontFamiliesM :=
                               mapIncr (fontFamiliesM m1) (normalizeFontFamily fontFamily) 1 \<rparr>)
      in case css page el ''font-size'' of
           None \<Rightarrow> m2
         | Some fontSize \<Rightarrow>
             if fontSize = [] then m2
             else m2\<lparr> fontSizesM := mapIncr (fontSizesM m2) fontSize 1 \<rparr>)"

text \<open>
  The body of the loop over the stylesheet links. \<open>matchFamily\<close> is
  \<open>href.match(/family=([^&:]+)/)[1]\<close>; a linked font counts ten times.
\<close>

fun matchFamily :: "string \<Rightarrow> string option" where
  "matchFamily [] = None"
| "matchFamily (c # cs) =
     (if startsWith (c # cs) ''family='' \<and>
         takeWhile (\<lambda>x. x \<noteq> CHR ''&'' \<and> x \<noteq> CHR '':'') (drop 7 (c # cs)) \<noteq> []
      then Some (takeWhile (\<lambda>x. x \<noteq> CHR ''&'' \<and> x \<noteq> CHR '':'') (drop 7 (c # cs)))
      else matchFamily cs)"

definition replacePlus :: "string \<Rightarrow> string" where
  "replacePlus s = map (\<lambda>c. if c = CHR ''+'' then CHR '' '' else c) s"

definition linkTypo :: "'e cheerio \<Rightarrow> typoMaps \<Rightarrow> 'e \<Rightarrow> typoMaps" where
  "linkTypo page maps el =
     (case attr page el ''href'' of
        None \<Rightarrow> maps
      | Some href \<Rightarrow>
          if href \<noteq> [] \<and> strIncludes href ''fonts.googleapis.com'' then
            (case matchFamily href of
               None \<Rightarrow> maps
             | Some fontMatch \<Rightarrow>
                 maps\<lparr> fontFamiliesM :=
                   mapIncr (fontFamiliesM maps) (normalizeFontFamily (replacePlus fontMatch)) 10 \<rparr>)
          else maps)"

record token =
  tokValue :: string
  tokCount :: nat

definition sortMapByFrequency :: "string freqMap \<Rightarrow> token list" where
  "sortMapByFrequency m =
     map (\<lambda>(key, cnt). \<lparr> tokValue = key, tokCount = cnt \<rparr>) (sortByCountDesc m)"

definition extractHeadingStyle :: "'e cheerio \<Rightarrow> string \<Rightarrow> nat option" where
  "extractHeadingStyle page selector =
     (if length (select page selector) = 0 then None else Some (length (select page selector)))"

record TypographySet =
  fontFamilies :: "token list"
  fontSizes :: "token list"
  fontWeights :: "token list"
  lineHeights :: "token list"
  letterSpacings :: "token list"
  textTransforms :: "token list"
  textDecorations :: "token list"
  headings :: "(string \<times> nat option) list"

definition collectTypography :: "'e cheerio \<Rightarrow> error + typoMaps" where
  \<open>collectTypography page =
     (let m1 = foldl (inlineStyleTypo page) emptyTypoMaps (select page ''[style]'')
      in case foldE (classTypo page) m1 (select page ''[class]'') of
           Inl e \<Rightarrow> Inl e
         | Inr m2 \<Rightarrow>
             Inr (foldl (linkTypo page)
                    (foldl (headingTypo page) m2 (select page ''h1, h2, h3, h4, h5, h6''))
                    (select page ''link[rel="stylesheet"]'')))\<close>

definition extractTypography :: "'e cheerio \<Rightarrow> error + TypographySet" where
  "extractTypography page =
     (case collectTypography page of
        Inl e \<Rightarrow> Inl e
      | Inr maps \<Rightarrow>
          Inr \<lparr> fontFamilies = sortMapByFrequency (fontFamiliesM maps),
                fontSizes = sortMapByFrequency (fontSizesM maps),
                fontWeights = sortMapByFrequency (fontWeightsM maps),
                lineHeights = sortMapByFrequency (lineHeightsM maps),
                letterSpacings = sortMapByFrequency (letterSpacingsM maps),
                textTransforms = sortMapByFrequency (textTransformsM maps),
                textDecorations = sortMapByFrequency (textDecorationsM maps),
                headings = map (\<lambda>h. (h, extractHeadingStyle page h))
                             [''h1'', ''h2'', ''h3'', ''h4'', ''h5'', ''h6''] \<rparr>)"

section \<open>Components\<close>

definition componentSelectors :: "(string \<times> string) list" where
  \<open>componentSelectors =
     [(''buttons'', ''button, .btn, [class*="button"], [type="button"], [type="submit"]''),
      (''forms'', ''form''),
      (''inputs'', ''input, textarea, select''),
      (''navigation'', ''nav, [class*="nav"], [class*="menu"]''),
      (''cards'', ''[class*="card"]''),
      (''modals'', ''[class*="modal"], [class*="dialog"]''),
      (''tables'', ''table''),
      (''lists'', ''ul, ol''),
      (''images'', ''img''),
      (''icons'', ''i, [class*="icon"]''),
      (''headers'', ''header, [class*="header"]''),
      (''footers'', ''footer, [class*="footer"]''),
      (''sidebars'', ''aside, [class*="sidebar"], [class*="side-bar"]'')]\<close>

record ElementSample =
  sampleTag :: string
  sampleClasses :: "string list"
  sampleId :: string
  sampleText :: string

record ComponentInfo =
  compCount :: nat
  compExamples :: "ElementSample list"

definition orEmpty :: "string option \<Rightarrow> string" where
  "orEmpty v = (case v of None \<Rightarrow> [] | Some s \<Rightarrow> s)"

definition extractComponentExamples :: "'e cheerio \<Rightarrow> 'e list \<Rightarrow> ElementSample list" where
  "extractComponentExamples page elements =
     map (\<lambda>el.
            \<lparr> sampleTag = toLowerCase (tagName page el),
              sampleClasses = filter (\<lambda>c. c \<noteq> []) (splitWs (orEmpty (attr page el ''class''))),
              sampleId = orEmpty (attr page el ''id''),
              sampleText = take 50 (trim (textOf page el)) @
                           (if length (textOf page el) > 50 then ''...'' else []) \<rparr>)
         (take 3 elements)"

definition extractComponents :: "'e cheerio \<Rightarrow> (string \<times> ComponentInfo) list" where
  "extractComponents page =
     map (\<lambda>(component, selector).
            (component,
             \<lparr> compCount = length (select page selector),
               compExamples =
                 (if length (select page selector) > 0
                  then extractComponentExamples page (select page selector)
                  else []) \<rparr>))
         componentSelectors"

section \<open>Layout\<close>

text \<open>
  The layout patterns: per pattern the selections of its selectors are united, the distinct
  nodes are counted (a \<open>Set\<close> keeps the first insertion of each node) and the first three
  are sampled. The objects that \<open>analyzeLayout\<close> returns for the patterns and frameworks also
  carry their constant selector lists, which the records leave out.
\<close>

definition layoutPatterns :: "(string \<times> string list) list" where
  \<open>layoutPatterns =
     [(''containers'',
         [''[class*="container"]'', ''[class*="wrapper"]'', ''[class*="content"]'', ''main'',
          ''section'', ''article'']),
      (''grids'',
         [''[class*="grid"]'', ''[class*="row"]'', ''[class*="cols"]'', ''[class*="columns"]'',
          ''[style*="display: grid"]'', ''[style*="display:grid"]'']),
      (''flexContainers'',
         [''[class*="flex"]'', ''[class*="d-flex"]'', ''[style*="display: flex"]'',
          ''[style*="display:flex"]'']),
      (''responsiveLayouts'',
         [''[class*="col-"]'', ''[class*="sm-"]'', ''[class*="md-"]'', ''[class*="lg-"]'',
          ''[class*="xl-"]'', ''[class*="mobile-"]'', ''[class*="tablet-"]'',
          ''[class*="desktop-"]'']),
      (''positioning'',
         [''[style*="position: absolute"]'', ''[style*="position:absolute"]'',
          ''[style*="position: relative"]'', ''[style*="position:relative"]'',
          ''[style*="position: fixed"]'', ''[style*="position:fixed"]'',
          ''[style*="position: sticky"]'', ''[style*="position:sticky"]'']),
      (''zIndex'', [''[style*="z-index:"]''])]\<close>

record PatternExample =
  exTag :: string
  exClasses :: "string list"
  exId :: "string option"
  exChildren :: nat

record LayoutPattern =
  patCount :: nat
  patExamples :: "PatternExample list"

definition uniqueInOrder :: "'a list \<Rightarrow> 'a list" where
  "uniqueInOrder xs = rev (remdups (rev xs))"

definition patternExample :: "'e cheerio \<Rightarrow> 'e \<Rightarrow> PatternExample" where
  "patternExample page el =
     \<lparr> exTag = (if toLowerCase (tagName page el) = [] then ''unknown''
                else toLowerCase (tagName page el)),
       exClasses = filter (\<lambda>c. c \<noteq> []) (splitWs (orEmpty (attr page el ''class''))),
       exId = (case attr page el ''id'' of
                 None \<Rightarrow> None
               | Some i \<Rightarrow> if i = [] then None else Some i),
       exChildren = childCount page el \<rparr>"

definition detectPattern :: "'e cheerio \<Rightarrow> string list \<Rightarrow> LayoutPattern" where
  "detectPattern page selectors =
     (let elements = foldl (\<lambda>els selector. add page els (select page selector)) [] selectors;
          uniqueElements = uniqueInOrder elements
      in \<lparr> patCount = length uniqueElements,
           patExamples = map (patternExample page) (take 3 uniqueElements) \<rparr>)"

text \<open>
  The framework loop: the share of a framework's selectors that match anything, as a
  rounded percentage. \<open>js_round\<close> is \<open>Math.round\<close>, which rounds a half upwards. The
  quotient is taken in the reals: with at most eight selectors the only products that end
  in one half (eighths) are exact in binary floating point too.
\<close>

definition cssFrameworks :: "(string \<times> string list) list" where
  \<open>cssFrameworks =
     [(''bootstrap'',
         [''.container'', ''.row'', ''.col'', ''.navbar'', ''.card'', ''.btn'', ''.alert'',
          ''.badge'']),
      (''tailwind'',
         [''[class*="flex"]'', ''[class*="grid"]'', ''[class*="text-"]'', ''[class*="bg-"]'',
          ''[class*="p-"]'', ''[class*="m-"]'', ''[class*="w-"]'', ''[class*="h-"]'']),
      (''foundation'',
         [''.grid-container'', ''.grid-x'', ''.cell'', ''.button'', ''.callout'', ''.top-bar'']),
      (''bulma'',
         [''.container'', ''.columns'', ''.column'', ''.navbar'', ''.button'', ''.notification'',
          ''.box'']),
      (''materialize'',
         [''.container'', ''.row'', ''.col'', ''.card'', ''.btn'', ''.navbar'', ''.sidenav''])]\<close>

definition js_round :: "real \<Rightarrow> int" where
  "js_round x = \<lfloor>x + 1 / 2\<rfloor>"

definition matchCount :: "'e cheerio \<Rightarrow> string list \<Rightarrow> nat" where
  "matchCount page selectors =
     foldl (\<lambda>n selector. if length (select page selector) > 0 then n + 1 else n) 0 selectors"

text \<open>
  The version of a framework. \<open>versionAt\<close> matches \<open>\d+\.\d+(\.\d+)?\<close> at the start of a
  string; \<open>findVersion\<close> is \<open>s.match(/(\d+\.\d+(\.\d+)?)/)[1]\<close> and \<open>findVVersion\<close> is
  \<open>s.match(/v(\d+\.\d+(\.\d+)?)/)[1]\<close>, the leftmost match; the test
  \<open>s.match(/v\d+\.\d+/)\<close> succeeds exactly when \<open>findVVersion\<close> finds something. A version
  found in a stylesheet URL overwrites one found in a comment, and a later link an earlier.
\<close>

definition versionAt :: "string \<Rightarrow> string option" where
  "versionAt s =
     (let major = takeWhile isDigit s;
          rest1 = dropWhile isDigit s;
          minor = takeWhile isDigit (drop 1 rest1);
          rest2 = dropWhile isDigit (drop 1 rest1);
          patch = takeWhile isDigit (drop 1 rest2)
      in if major = [] \<or> take 1 rest1 \<noteq> ''.'' \<or> minor = [] then None
         else if take 1 rest2 = ''.'' \<and> patch \<noteq> [] then Some (major @ ''.'' @ minor @ ''.'' @ patch)
         else Some (major @ ''.'' @ minor))"

fun findVersion :: "string \<Rightarrow> string option" where
  "findVersion [] = None"
| "findVersion (c # cs) =
     (case versionAt (c # cs) of
        Some v \<Rightarrow> Some v
      | None \<Rightarrow> findVersion cs)"

fun findVVersion :: "string \<Rightarrow> string option" where
  "findVVersion [] = None"
| "findVVersion (c # cs) =
     (if c = CHR ''v'' then
        (case versionAt cs of
           Some v \<Rightarrow> Some v
         | None \<Rightarrow> findVVersion cs)
      else findVVersion cs)"

definition detectVersion :: "'e cheerio \<Rightarrow> string \<Rightarrow> string option" where
  \<open>detectVersion page frameworkName =
     (let versionComment =
            filter (\<lambda>node. nodeType page node = 8 \<and>
                             strIncludes (toLowerCase (nodeValue page node)) frameworkName \<and>
                             findVVersion (nodeValue page node) \<noteq> None)
                   (select page ''*:contains("v")'');
          fromComment =
            (if length versionComment > 0
             then findVVersion (concat (map (textOf page) versionComment))
             else None)
      in foldl (\<lambda>version el.
                  if strIncludes (toLowerCase (orEmpty (attr page el ''href''))) frameworkName
                  then (case findVersion (orEmpty (attr page el ''href'')) of
                          Some v \<Rightarrow> Some v
                        | None \<Rightarrow> version)
                  else version)
               fromComment (select page ''link[rel="stylesheet"]''))\<close>

record FrameworkDetection =
  detected :: bool
  version :: "string option"
  confidence :: int

definition detectFramework :: "'e cheerio \<Rightarrow> string \<Rightarrow> string list \<Rightarrow> FrameworkDetection" where
  "detectFramework page frameworkName selectors =
     (let totalSelectors = length selectors;
          conf = js_round (real (matchCount page selectors) / real totalSelectors * 100)
      in \<lparr> detected = (conf > 30),
           version = detectVersion page frameworkName,
           confidence = conf \<rparr>)"

text \<open>The viewport tag and the page-structure flags.\<close>

record Responsive =
  viewportDetected :: bool
  breakpoints :: "string list"
  viewportMeta :: "string option"

definition detectResponsive :: "'e cheerio \<Rightarrow> Responsive" where
  \<open>detectResponsive page =
     (case select page ''meta[name="viewport"]'' of
        [] \<Rightarrow> \<lparr> viewportDetected = False, breakpoints = [], viewportMeta = None \<rparr>
      | el # _ \<Rightarrow>
          \<lparr> viewportDetected = True, breakpoints = [], viewportMeta = attr page el ''content'' \<rparr>)\<close>

record PageStructure =
  hasHeader :: bool
  hasFooter :: bool
  hasNavigation :: bool
  hasSidebar :: bool
  hasMain :: bool
  sections :: nat

definition analyzePageStructure :: "'e cheerio \<Rightarrow> PageStructure" where
  \<open>analyzePageStructure page =
     \<lparr> hasHeader = (length (select page ''header'') > 0 \<or>
                    length (select page ''[class*="header"]'') > 0),
       hasFooter = (length (select page ''footer'') > 0 \<or>
                    length (select page ''[class*="footer"]'') > 0),
       hasNavigation = (length (select page ''nav'') > 0 \<or>
                        length (select page ''[class*="nav"]'') > 0 \<or>
                        length (select page ''[class*="menu"]'') > 0),
       hasSidebar = (length (select page ''aside'') > 0 \<or>
                     length (select page ''[class*="sidebar"]'') > 0 \<or>
                     length (select page ''[class*="side-bar"]'') > 0),
       hasMain = (length (select page ''main'') > 0),
       sections = length (select page ''section'') \<rparr>\<close>

record Layout =
  patterns :: "(string \<times> LayoutPattern) list"
  frameworks :: "(string \<times> FrameworkDetection) list"
  responsive :: Responsive
  pageStructure :: PageStructure

definition analyzeLayout :: "'e cheerio \<Rightarrow> Layout" where
  "analyzeLayout page =
     \<lparr> patterns =
         map (\<lambda>(patternName, selectors). (patternName, detectPattern page selectors))
             layoutPatterns,
       frameworks =
         map (\<lambda>(frameworkName, selectors).
                (frameworkName, detectFramework page frameworkName selectors))
             cssFrameworks,
       responsive = detectResponsive page,
       pageStructure = analyzePageStructure page \<rparr>"

section \<open>Analysing one site\<close>

text \<open>
  \<open>analyzeWebsite\<close> reads two things from outside: the page, which \<open>fetch\<close> stands for
  (\<open>axios.get\<close> followed by \<open>cheerio.load\<close>, or the error thrown), and the clock, whose
  reading \<open>now\<close> is what \<open>new Date().toISOString()\<close> returns when the result is built. Any
  error is caught and thrown again wrapped.
\<close>

record SiteAnalysis =
  url :: string
  colors :: ColorCategorySet
  typography :: TypographySet
  components :: "(string \<times> ComponentInfo) list"
  layout :: Layout
  timestamp :: string

definition analyzeWebsite ::
  "'c chromaLib \<Rightarrow> (string \<Rightarrow> error + 'e cheerio) \<Rightarrow> string \<Rightarrow> string \<Rightarrow> error + SiteAnalysis"
where
  "analyzeWebsite lib fetch now u =
     (case fetch u of
        Inl e \<Rightarrow> Inl (AnalysisFailed e)
      | Inr page \<Rightarrow>
          (case extractColors lib page of
             Inl e \<Rightarrow> Inl (AnalysisFailed e)
           | Inr cs \<Rightarrow>
               (case extractTypography page of
                  Inl e \<Rightarrow> Inl (AnalysisFailed e)
                | Inr ty \<Rightarrow>
                    Inr \<lparr> url = u, colors = cs, typography = ty,
                          components = extractComponents page,
                          layout = analyzeLayout page,
                          timestamp = now \<rparr>)))"

section \<open>Synthesising the style guide\<close>

text \<open>
  \<open>selectMostCommon\<close> counts the items of a pool into a fresh map, sorts the entries by
  count and keeps the first \<open>cnt\<close> keys.
\<close>

definition countItems :: "'k list \<Rightarrow> 'k freqMap" where
  "countItems items = foldl (\<lambda>frequency item. mapIncr frequency item 1) [] items"

definition selectMostCommon :: "'k list \<Rightarrow> nat \<Rightarrow> 'k list" where
  "selectMostCommon items cnt = map fst (take cnt (sortByCountDesc (countItems items)))"

text \<open>
  \<open>selectMostCommonFromObjects\<close> adds up the counts the tokens carry. The source writes
  \<open>(frequency.get(value) || 0) + item.count || 1\<close>, which groups as
  \<open>((frequency.get(value) || 0) + item.count) || 1\<close>: a sum of zero is stored as one.
\<close>

definition addToken :: "string freqMap \<Rightarrow> token \<Rightarrow> string freqMap" where
  "addToken frequency item =
     mapSet frequency (tokValue item)
       (if mapGetOr0 frequency (tokValue item) + tokCount item = 0 then 1
        else mapGetOr0 frequency (tokValue item) + tokCount item)"

definition selectMostCommonFromObjects :: "token list \<Rightarrow> nat \<Rightarrow> token list" where
  "selectMostCommonFromObjects items cnt =
     map (\<lambda>(v, c). \<lparr> tokValue = v, tokCount = c \<rparr>)
         (take cnt (sortByCountDesc (foldl addToken [] items)))"

type_synonym scale = "(string \<times> string) list"

definition defaultFontSizeScale :: scale where
  "defaultFontSizeScale =
     [(''xs'', ''0.75rem''), (''sm'', ''0.875rem''), (''base'', ''1rem''), (''lg'', ''1.125rem''),
      (''xl'', ''1.25rem''), (''2xl'', ''1.5rem''), (''3xl'', ''1.875rem''),
      (''4xl'', ''2.25rem''), (''5xl'', ''3rem''), (''6xl'', ''3.75rem'')]"

definition generateFontSizeScale :: "token list \<Rightarrow> scale" where
  "generateFontSizeScale sizes =
     (if length sizes < 5 then defaultFontSizeScale else defaultFontSizeScale)"

definition defaultLineHeightScale :: scale where
  "defaultLineHeightScale =
     [(''none'', ''1''), (''tight'', ''1.25''), (''snug'', ''1.375''), (''normal'', ''1.5''),
      (''relaxed'', ''1.625''), (''loose'', ''2'')]"

definition generateLineHeightScale :: "token list \<Rightarrow> scale" where
  "generateLineHeightScale heights =
     (if length heights < 3 then defaultLineHeightScale else defaultLineHeightScale)"

text \<open>
  The framework vote. For one analysis the loop keeps the first framework whose confidence
  exceeds every earlier one, starting from zero; the names are then counted and the first
  name with the largest count is recommended.
\<close>

definition highestConfidence :: "(string \<times> FrameworkDetection) list \<Rightarrow> string option" where
  "highestConfidence fws =
     snd (foldl (\<lambda>(highest, found) (name, framework).
                   if confidence framework > highest
                   then (confidence framework, Some name)
                   else (highest, found))
                (0, None) fws)"

definition layoutFrameworks :: "SiteAnalysis list \<Rightarrow> string list" where
  "layoutFrameworks analyses =
     List.map_filter (\<lambda>analysis. highestConfidence (frameworks (layout analysis))) analyses"

definition recommendFramework :: "string list \<Rightarrow> string option" where
  "recommendFramework names =
     snd (foldl (\<lambda>(maxCount, best) (name, cnt).
                   if cnt > maxCount then (cnt, Some name) else (maxCount, best))
                (0, None) (countItems names))"

text \<open>The palette: each category pool, or its fallback when the pool is empty.\<close>

record ColorPalette =
  palPrimary :: "string list"
  palSecondary :: "string list"
  palAccent :: "string list"
  palNeutral :: "string list"

definition extremeLuminance :: "'c chromaLib \<Rightarrow> string \<Rightarrow> bool" where
  "extremeLuminance lib c =
     (case chroma lib c of
        None \<Rightarrow> False
      | Some color \<Rightarrow> luminance lib color > 0.8 \<or> luminance lib color < 0.2)"

definition colorPalette :: "'c chromaLib \<Rightarrow> SiteAnalysis list \<Rightarrow> ColorPalette" where
  "colorPalette lib analyses =
     (let allCols = concat (map (\<lambda>analysis. allColors (colors analysis)) analyses);
          allPrimaryColors = concat (map (\<lambda>analysis. primary (colors analysis)) analyses);
          allSecondaryColors = concat (map (\<lambda>analysis. secondary (colors analysis)) analyses);
          allAccentColors = concat (map (\<lambda>analysis. accent (colors analysis)) analyses);
          allNeutralColors = concat (map (\<lambda>analysis. neutral (colors analysis)) analyses)
      in \<lparr> palPrimary =
             selectMostCommon (if length allPrimaryColors > 0 then allPrimaryColors else allCols) 3,
           palSecondary =
             selectMostCommon
               (if length allSecondaryColors > 0 then allSecondaryColors else drop 3 allCols) 3,
           palAccent =
             selectMostCommon
               (if length allAccentColors > 0 then allAccentColors else drop 6 allCols) 2,
           palNeutral =
             selectMostCommon
               (if length allNeutralColors > 0 then allNeutralColors
                else filter (extremeLuminance lib) allCols) 4 \<rparr>)"

text \<open>
  The shade ramp of a base colour; a colour the library cannot parse gives the empty ramp,
  an empty palette category gives none.
\<close>

definition shadeRamp :: "'c chromaLib \<Rightarrow> string \<Rightarrow> scale" where
  "shadeRamp lib base =
     (case chroma lib base of
        None \<Rightarrow> []
      | Some b \<Rightarrow>
          [(''50'', luminanceHex lib b 0.95), (''100'', luminanceHex lib b 0.9),
           (''200'', luminanceHex lib b 0.8), (''300'', luminanceHex lib b 0.7),
           (''400'', luminanceHex lib b 0.6), (''500'', hex lib b),
           (''600'', luminanceHex lib b 0.4), (''700'', luminanceHex lib b 0.3),
           (''800'', luminanceHex lib b 0.2), (''900'', luminanceHex lib b 0.1)])"

definition shadesOf :: "'c chromaLib \<Rightarrow> string list \<Rightarrow> scale option" where
  "shadesOf lib selected =
     (case selected of [] \<Rightarrow> None | base # _ \<Rightarrow> Some (shadeRamp lib base))"

text \<open>Component specifications, per fixed component type.\<close>

definition componentTypes :: "string list" where
  "componentTypes =
     [''buttons'', ''forms'', ''inputs'', ''navigation'', ''cards'', ''modals'', ''tables'',
      ''lists'']"

record ComponentSpec =
  specCount :: nat
  specExamples :: "ElementSample list"

definition generateComponentSpecs :: "SiteAnalysis list \<Rightarrow> (string \<times> ComponentSpec) list" where
  "generateComponentSpecs analyses =
     map (\<lambda>type.
            (type,
             \<lparr> specCount =
                 foldl (\<lambda>total analysis.
                          total + (case map_of (components analysis) type of
                                     None \<Rightarrow> 0
                                   | Some c \<Rightarrow> compCount c))
                       0 analyses,
               specExamples =
                 take 3 (concat (map (\<lambda>analysis.
                                        case map_of (components analysis) type of
                                          None \<Rightarrow> []
                                        | Some c \<Rightarrow> compExamples c)
                                     analyses)) \<rparr>))
         componentTypes"

text \<open>
  The style guide. Its constant tables (semantic colours, heading and paragraph styles,
  grid, containers, spacing, breakpoints, shadows, borders, animations) and the two rendered
  strings are the same for every input and are not part of the record. The field
  \<open>documentation\<close> is absent from the object that \<open>generateStyleGuide\<close> builds and is set
  from the result of \<open>generateDocs\<close> afterwards; of that result the record keeps the path of
  the file.
\<close>

record StyleTypography =
  sgFontFamilies :: "token list"
  sgFontSizes :: scale
  sgFontWeights :: "token list"
  sgLineHeights :: scale
  sgLetterSpacings :: "token list"
  sgTextTransforms :: "token list"

record StyleGuide =
  sgPalette :: ColorPalette
  sgShadesPrimary :: "scale option"
  sgShadesSecondary :: "scale option"
  sgTypography :: StyleTypography
  sgComponents :: "(string \<times> ComponentSpec) list"
  recommendedFramework :: "string option"
  documentation :: "string option"

definition styleTypography :: "SiteAnalysis list \<Rightarrow> StyleTypography" where
  "styleTypography analyses =
     (let allFontFamilies = concat (map (\<lambda>analysis. fontFamilies (typography analysis)) analyses);
          allFontSizes = concat (map (\<lambda>analysis. fontSizes (typography analysis)) analyses);
          allFontWeights = concat (map (\<lambda>analysis. fontWeights (typography analysis)) analyses);
          allLineHeights = concat (map (\<lambda>analysis. lineHeights (typography analysis)) analyses);
          allLetterSpacings =
            concat (map (\<lambda>analysis. letterSpacings (typography analysis)) analyses);
          allTextTransforms =
            concat (map (\<lambda>analysis. textTransforms (typography analysis)) analyses)
      in \<lparr> sgFontFamilies = selectMostCommonFromObjects allFontFamilies 3,
           sgFontSizes = generateFontSizeScale (selectMostCommonFromObjects allFontSizes 5),
           sgFontWeights = selectMostCommonFromObjects allFontWeights 3,
           sgLineHeights = generateLineHeightScale (selectMostCommonFromObjects allLineHeights 5),
           sgLetterSpacings = selectMostCommonFromObjects allLetterSpacings 3,
           sgTextTransforms = selectMostCommonFromObjects allTextTransforms 3 \<rparr>)"

text \<open>
  \<open>styleGuide lib analyses\<close> is the object \<open>styleGuide\<close> that \<open>generateStyleGuide\<close> builds
  from the analyses, before the documentation is generated.
\<close>

definition styleGuide :: "'c chromaLib \<Rightarrow> SiteAnalysis list \<Rightarrow> StyleGuide" where
  "styleGuide lib analyses =
     (let palette = colorPalette lib analyses
      in \<lparr> sgPalette = palette,
           sgShadesPrimary = shadesOf lib (palPrimary palette),
           sgShadesSecondary = shadesOf lib (palSecondary palette),
           sgTypography = styleTypography analyses,
           sgComponents = generateComponentSpecs analyses,
           recommendedFramework = recommendFramework (layoutFrameworks analyses),
           documentation = None \<rparr>)"

text \<open>
  The documentation. \<open>generateMarkdownDocs\<close> appends one piece of text after the other to
  a string; the pieces that read the style guide are guarded by tests that the field is
  there, and none of them throws on an object built by \<open>generateStyleGuide\<close>. The piece of
  line 836 of \<open>docsGenerator.js\<close> is a template literal whose placeholder \<open>${asset.url}\<close> is
  not escaped; it stands at the top level of the function, under no condition, and no
  variable \<open>asset\<close> is in scope. Evaluating it throws the \<open>ReferenceError\<close> below, so the
  function throws it for every style guide and returns no string. \<open>generateDocs\<close> renders
  the text first and writes the file second: \<open>saveDocsToFile markdown\<close> is the outcome of
  the write, the path of the file or the error of the file system, which is thrown on.
  \<open>generateStyleGuide\<close> calls \<open>generateDocs\<close> on the object it has built and does not
  catch.
\<close>

definition generateMarkdownDocs :: "StyleGuide \<Rightarrow> error + string" where
  "generateMarkdownDocs guide = Inl (ReferenceError ''asset is not defined'')"

definition generateDocs :: "(string \<Rightarrow> error + string) \<Rightarrow> StyleGuide \<Rightarrow> error + string" where
  "generateDocs saveDocsToFile guide =
     (case generateMarkdownDocs guide of
        Inl e \<Rightarrow> Inl e
      | Inr markdown \<Rightarrow> saveDocsToFile markdown)"

definition generateStyleGuide ::
  "'c chromaLib \<Rightarrow> (string \<Rightarrow> error + string) \<Rightarrow> SiteAnalysis list \<Rightarrow> error + StyleGuide" where
  "generateStyleGuide lib saveDocsToFile analyses =
     (case generateDocs saveDocsToFile (styleGuide lib analyses) of
        Inl e \<Rightarrow> Inl e
      | Inr filePath \<Rightarrow> Inr ((styleGuide lib analyses) \<lparr> documentation := Some filePath \<rparr>))"

text \<open>
  The route \<open>POST /multiple\<close> is the caller: it answers 400 for a missing, non-array or
  empty list and for more than five URLs, and only then analyses the sites and calls
  \<open>generateStyleGuide\<close>. \<open>Rejected\<close> carries the message of the 400 answer; \<open>Failed\<close> is
  the 500 answer, sent when an analysis or the synthesis throws; the route catches every
  error. The analyses each read the clock: \<open>now i\<close> is the reading of the analysis of the
  \<open>i\<close>-th URL.
\<close>

datatype 'a response = Rejected string | Failed | Ok 'a

fun analyzeAll ::
  "'c chromaLib \<Rightarrow> (string \<Rightarrow> error + 'e cheerio) \<Rightarrow> (nat \<Rightarrow> string) \<Rightarrow> nat \<Rightarrow>
   string list \<Rightarrow> SiteAnalysis list option" where
  "analyzeAll lib fetch now i [] = Some []"
| "analyzeAll lib fetch now i (u # us) =
     (case analyzeWebsite lib fetch (now i) u of
        Inl e \<Rightarrow> None
      | Inr a \<Rightarrow>
          (case analyzeAll lib fetch now (Suc i) us of
             None \<Rightarrow> None
           | Some as \<Rightarrow> Some (a # as)))"

definition analyzeMultiple ::
  "'c chromaLib \<Rightarrow> (string \<Rightarrow> error + 'e cheerio) \<Rightarrow> (nat \<Rightarrow> string) \<Rightarrow>
   (string \<Rightarrow> error + string) \<Rightarrow> string list \<Rightarrow> StyleGuide response" where
  "analyzeMultiple lib fetch now saveDocsToFile urls =
     (if length urls = 0 then Rejected ''URLs array is required''
      else if length urls > 5 then Rejected ''Maximum 5 URLs allowed''
      else case analyzeAll lib fetch now 0 urls of
             None \<Rightarrow> Failed
           | Some analyses \<Rightarrow>
               (case generateStyleGuide lib saveDocsToFile analyses of
                  Inl e \<Rightarrow> Failed
                | Inr guide \<Rightarrow> Ok guide))"

section \<open>Sample inputs\<close>

text \<open>
  A small stand-in for the colour library, used to run the definitions on concrete inputs.
  It knows three colours: pure red, the red \<open>#ff0101\<close> next to it, and pure blue. The
  numbers stand for what chroma-js computes: the two reds are far below the similarity
  threshold of each other, blue is far above it from both, and red has the luminance 0.2126;
  the statements below only depend on which side of a threshold a value lies.
  \<open>luminanceHex\<close> does not reproduce the shade rendering and returns the base colour.
\<close>

definition sampleLib :: "string chromaLib" where
  "sampleLib =
     \<lparr> chroma = (\<lambda>s. if s \<in> set [''#ff0000'', ''#ff0101'', ''#0000ff''] then Some s else None),
       deltaE = (\<lambda>a b.
         if a \<in> set [''#ff0000'', ''#ff0101'', ''#0000ff''] \<and>
            b \<in> set [''#ff0000'', ''#ff0101'', ''#0000ff'']
         then Some (if a = b then 0
                    else if a = ''#0000ff'' \<or> b = ''#0000ff'' then 52.9
                    else 0.3)
         else None),
       luminance = (\<lambda>c. if c = ''#0000ff'' then 0.0722 else 0.2126),
       chromaOf = (\<lambda>c. Some (if c = ''#0000ff'' then 133.8 else 104.6)),
       hex = (\<lambda>c. c),
       luminanceHex = (\<lambda>c l. c) \<rparr>"

text \<open>
  Sample pages number their elements in document order; \<open>blankPage\<close> has none. Then a
  page with three elements styled \<open>color: #ff0000\<close> and one styled \<open>color:#ff0101\<close>, and
  the colour map collected from it.
\<close>

definition blankPage :: "nat cheerio" where
  "blankPage =
     \<lparr> select = (\<lambda>sel. []),
       add = (\<lambda>xs ys. sort (remdups (xs @ ys))),
       attr = (\<lambda>el name. None),
       css = (\<lambda>el prop. None),
       tagName = (\<lambda>el. ''DIV''),
       textOf = (\<lambda>el. []),
       childCount = (\<lambda>el. 0),
       nodeType = (\<lambda>el. 1),
       nodeValue = (\<lambda>el. []) \<rparr>"

definition pageTwoReds :: "nat cheerio" where
  "pageTwoReds =
     blankPage
     \<lparr> select := (\<lambda>sel. if sel = ''[style]'' then [0, 1, 2, 3] else []),
       attr := (\<lambda>el name.
         if name = ''style'' then
           (if el < 3 then Some ''color: #ff0000''
            else if el = 3 then Some ''color:#ff0101''
            else None)
         else None) \<rparr>"

definition twoReds :: "string freqMap" where
  "twoReds = [(''#ff0000'', 3), (''#ff0101'', 1)]"

definition threeColors :: "string freqMap" where
  "threeColors = [(''#ff0000'', 3), (''#ff0101'', 1), (''#0000ff'', 2)]"



definition pageBootstrapHalf :: "nat cheerio" where
  \<open>pageBootstrapHalf =
     blankPage
     \<lparr> select := (\<lambda>sel.
         if sel = ''[class]'' then [0, 1, 2, 3]
         else if sel = ''.container'' then [0]
         else if sel = ''[class*="container"]'' then [0]
         else if sel = ''.row'' then [1]
         else if sel = ''[class*="row"]'' then [1]
         else if sel = ''.col'' then [2]
         else if sel = ''.btn'' then [3]
         else if sel = ''button, .btn, [class*="button"], [type="button"], [type="submit"]''
           then [3]
         else []),
       attr := (\<lambda>el name.
         if name = ''class'' then
           (if el = 0 then Some ''container''
            else if el = 1 then Some ''row''
            else if el = 2 then Some ''col''
            else if el = 3 then Some ''btn''
            else None)
         else None),
       tagName := (\<lambda>el. if el = 3 then ''BUTTON'' else ''DIV''),
       textOf := (\<lambda>el. if el = 3 then ''Go'' else []),
       childCount := (\<lambda>el. if el = 0 then 1 else if el = 1 then 1 else if el = 2 then 1 else 0) \<rparr>\<close>

text \<open>The same page without the button: three of the eight Bootstrap selectors match.\<close>

definition pageBootstrapThree :: "nat cheerio" where
  "pageBootstrapThree =
     pageBootstrapHalf
     \<lparr> select := (\<lambda>sel. if sel = ''.btn'' then [] else select pageBootstrapHalf sel) \<rparr>"

text \<open>
  What \<open>analyzeWebsite\<close> returns for a page that has styled elements but no components,
  headings, classes or links: only the colours vary. Then the colour sets of the page with
  the two reds and of a page with one red element, that page and its analysis, two analyses
  whose primary pools are those of the merging scenario, five observed font sizes, and the
  style guide of the empty batch.
\<close>
definition sampleAnalysis :: "string \<Rightarrow> ColorCategorySet \<Rightarrow> string \<Rightarrow> SiteAnalysis" where
  "sampleAnalysis u cs t =
     \<lparr> url = u,
       colors = cs,
       typography =
         \<lparr> fontFamilies = [], fontSizes = [], fontWeights = [], lineHeights = [],
           letterSpacings = [], textTransforms = [], textDecorations = [],
           headings = map (\<lambda>h. (h, None)) [''h1'', ''h2'', ''h3'', ''h4'', ''h5'', ''h6''] \<rparr>,
       components =
         map (\<lambda>(component, selector). (component, \<lparr> compCount = 0, compExamples = [] \<rparr>))
             componentSelectors,
       layout =
         \<lparr> patterns =
             map (\<lambda>(name, selectors). (name, \<lparr> patCount = 0, patExamples = [] \<rparr>))
                 layoutPatterns,
           frameworks =
             map (\<lambda>(name, selectors).
                    (name, \<lparr> detected = False, version = None, confidence = 0 \<rparr>))
                 cssFrameworks,
           responsive = \<lparr> viewportDetected = False, breakpoints = [], viewportMeta = None \<rparr>,
           pageStructure =
             \<lparr> hasHeader = False, hasFooter = False, hasNavigation = False,
               hasSidebar = False, hasMain = False, sections = 0 \<rparr> \<rparr>,
       timestamp = t \<rparr>"

definition twoRedsColors :: ColorCategorySet where
  "twoRedsColors =
     \<lparr> primary = [''#ff0000'', ''#ff0101''], secondary = [], accent = [], neutral = [],
       allColors = [''#ff0000''] \<rparr>"

definition fiveSizes :: "token list" where
  "fiveSizes =
     [\<lparr> tokValue = ''16px'', tokCount = 9 \<rparr>, \<lparr> tokValue = ''12px'', tokCount = 4 \<rparr>,
      \<lparr> tokValue = ''14px'', tokCount = 3 \<rparr>, \<lparr> tokValue = ''20px'', tokCount = 2 \<rparr>,
      \<lparr> tokValue = ''24px'', tokCount = 1 \<rparr>]"

definition emptyStyleGuide :: StyleGuide where
  "emptyStyleGuide =
     \<lparr> sgPalette = \<lparr> palPrimary = [], palSecondary = [], palAccent = [], palNeutral = [] \<rparr>,
       sgShadesPrimary = None,
       sgShadesSecondary = None,
       sgTypography =
         \<lparr> sgFontFamilies = [], sgFontSizes = defaultFontSizeScale, sgFontWeights = [],
           sgLineHeights = defaultLineHeightScale, sgLetterSpacings = [],
           sgTextTransforms = [] \<rparr>,
       sgComponents =
         map (\<lambda>type. (type, \<lparr> specCount = 0, specExamples = [] \<rparr>)) componentTypes,
       recommendedFramework = None,
       documentation = None \<rparr>"

definition oneRedColors :: ColorCategorySet where
  "oneRedColors =
     \<lparr> primary = [''#ff0000''], secondary = [], accent = [], neutral = [],
       allColors = [''#ff0000''] \<rparr>"

definition pageOneRed :: "nat cheerio" where
  "pageOneRed =
     blankPage
     \<lparr> select := (\<lambda>sel. if sel = ''[style]'' then [0] else []),
       attr := (\<lambda>el name. if el = 0 \<and> name = ''style'' then Some ''color: #ff0000'' else None),
       tagName := (\<lambda>el. ''P'') \<rparr>"

definition redAnalysis :: SiteAnalysis where
  "redAnalysis = sampleAnalysis ''https://example.com'' oneRedColors ''2024-05-01T10:00:00.000Z''"

definition firstSite :: SiteAnalysis where
  "firstSite =
     sampleAnalysis ''https://one.example''
       \<lparr> primary = [''#ff0000'', ''#ff0000'', ''#0000ff''], secondary = [], accent = [],
         neutral = [], allColors = [''#ff0000'', ''#0000ff''] \<rparr>
       ''2024-05-01T10:00:00.000Z''"

definition secondSite :: SiteAnalysis where
  "secondSite =
     sampleAnalysis ''https://two.example''
       \<lparr> primary = [''#ff0000'', ''#00ff00''], secondary = [], accent = [],
         neutral = [], allColors = [''#ff0000'', ''#00ff00''] \<rparr>
       ''2024-05-01T10:00:01.000Z''"

text \<open>Two raw font-family strings.\<close>

definition timesQuoted :: string where
  "timesQuoted = '' \"Times New Roman\", Times ''"

definition futuraQuoted :: string where
  "futuraQuoted = '' 'Futura' ''"

section \<open>Auxiliary notions\<close>

text \<open>No later colour of the list is too close to an earlier one.\<close>

definition separated :: "'c chromaLib \<Rightarrow> string list \<Rightarrow> bool" where
  "separated lib xs = (\<forall>j < length xs. \<forall>i < j. \<not> tooClose lib (xs ! j) (xs ! i))"

text \<open>The pool of one colour category over all analyses.\<close>

definition pooled :: "(ColorCategorySet \<Rightarrow> string list) \<Rightarrow> SiteAnalysis list \<Rightarrow> string list" where
  "pooled category analyses = concat (map (\<lambda>analysis. category (colors analysis)) analyses)"

section \<open>Strings: the definitions against the library notions\<close>

lemma startsWith_prefix: "startsWith s t \<longleftrightarrow> prefix t s"
  by (induction s t rule: startsWith.induct) auto

lemma strIncludes_sublist: "strIncludes s t \<longleftrightarrow> sublist t s"
  by (induction s) (auto simp: startsWith_prefix sublist_Cons_right)

lemma toLowerCase_letters:
  "toLowerCase ''ABCDEFGHIJKLMNOPQRSTUVWXYZ'' = ''abcdefghijklmnopqrstuvwxyz''"
  by (simp add: toLowerCase_def)

lemma toLowerCase_others:
  "toLowerCase ''abcxyz0189 -_:;,.#()[]@`{}'' = ''abcxyz0189 -_:;,.#()[]@`{}''"
  by (simp add: toLowerCase_def)

lemma toLowerCase_latin1:
  "toLowerCase [CHR 0xC0, CHR 0xD6, CHR 0xD7, CHR 0xD8, CHR 0xDE, CHR 0xDF, CHR 0xE0, CHR 0xFF]
     = [CHR 0xE0, CHR 0xF6, CHR 0xD7, CHR 0xF8, CHR 0xFE, CHR 0xDF, CHR 0xE0, CHR 0xFF]"
  by code_simp

lemmas str_defs = captureValue_def isSpace_def toLowerCase_def trim_def

section \<open>Sorting by frequency\<close>

lemma sortByCountDesc_nth_mono:
  assumes "i \<le> j" and "j < length m"
  shows "snd (sortByCountDesc m ! j) \<le> snd (sortByCountDesc m ! i)"
proof -
  let ?f = "\<lambda>e::'a \<times> nat. - int (snd e)"
  have "sorted (map ?f (sort_key ?f m))" by (rule sorted_sort_key)
  with assms have "map ?f (sort_key ?f m) ! i \<le> map ?f (sort_key ?f m) ! j"
    by (intro sorted_nth_mono) simp_all
  with assms show ?thesis by (simp add: sortByCountDesc_def)
qed

lemma distinct_keys_sort:
  "distinct (map fst (sortByCountDesc m)) = distinct (map fst m)"
  by (simp add: sortByCountDesc_def distinct_map)

lemma mapGetOr0_entry:
  "distinct (map fst m) \<Longrightarrow> e \<in> set m \<Longrightarrow> mapGetOr0 m (fst e) = snd e"
  by (cases e) (simp add: mapGetOr0_def)

lemma filter_not_in_take:
  assumes "distinct xs"
  shows "filter (\<lambda>x. x \<notin> set (take n xs)) xs = drop n xs"
proof -
  let ?P = "\<lambda>x. x \<notin> set (take n xs)"
  have disj: "set (take n xs) \<inter> set (drop n xs) = {}"
    using assms by (simp add: set_take_disj_set_drop_if_distinct)
  have "filter ?P xs = filter ?P (take n xs @ drop n xs)" by simp
  also have "\<dots> = filter ?P (take n xs) @ filter ?P (drop n xs)" by (rule filter_append)
  also have "filter ?P (take n xs) = []" by (simp add: filter_empty_conv)
  also have "filter ?P (drop n xs) = drop n xs"
    using disj by (intro filter_True) blast
  finally show ?thesis by simp
qed

lemma take_filter_holds: "x \<in> set (take n (filter P xs)) \<Longrightarrow> P x"
  by (auto dest: in_set_takeD)

section \<open>The greedy pass\<close>

lemma isSimilar_iff: "isSimilar lib acc c \<longleftrightarrow> (\<exists>e \<in> set acc. tooClose lib c e)"
  by (simp add: isSimilar_def list_ex_iff)

lemma separated_snoc:
  assumes "separated lib acc" and "\<not> isSimilar lib acc c"
  shows "separated lib (acc @ [c])"
  unfolding separated_def
proof (intro allI impI)
  fix j i
  assume j: "j < length (acc @ [c])" and i: "i < j"
  show "\<not> tooClose lib ((acc @ [c]) ! j) ((acc @ [c]) ! i)"
  proof (cases "j < length acc")
    case True
    with i assms(1) show ?thesis
      by (simp add: separated_def nth_append)
  next
    case False
    with j have jl: "j = length acc" by simp
    with i have "acc ! i \<in> set acc" by simp
    with assms(2) have "\<not> tooClose lib c (acc ! i)"
      by (auto simp: isSimilar_iff)
    with jl i show ?thesis by (simp add: nth_append)
  qed
qed

lemma dedupLoop_separated:
  "separated lib acc \<Longrightarrow> separated lib (dedupLoop lib acc cs)"
  by (induction cs arbitrary: acc) (simp_all add: separated_snoc)

lemma dedupLoop_keeps: "set acc \<subseteq> set (dedupLoop lib acc cs)"
proof (induction cs arbitrary: acc)
  case Nil
  show ?case by simp
next
  case (Cons c cs)
  have "set acc \<subseteq> set (acc @ [c])" by auto
  also have "\<dots> \<subseteq> set (dedupLoop lib (acc @ [c]) cs)" by (rule Cons.IH)
  finally show ?case using Cons.IH [of acc] by simp
qed

lemma dedupLoop_dropped:
  "c \<in> set cs \<Longrightarrow> c \<notin> set (dedupLoop lib acc cs) \<Longrightarrow>
   \<exists>e \<in> set (dedupLoop lib acc cs). tooClose lib c e"
proof (induction cs arbitrary: acc)
  case Nil
  then show ?case by simp
next
  case (Cons x cs)
  show ?case
  proof (cases "isSimilar lib acc x")
    case True
    show ?thesis
    proof (cases "c = x")
      case True
      with \<open>isSimilar lib acc x\<close> obtain e where "e \<in> set acc" "tooClose lib c e"
        by (auto simp: isSimilar_iff)
      with dedupLoop_keeps [of acc lib "x # cs"] show ?thesis by blast
    next
      case False
      with Cons.prems \<open>isSimilar lib acc x\<close> Cons.IH [of acc] show ?thesis by simp
    qed
  next
    case False
    show ?thesis
    proof (cases "c = x")
      case True
      have "x \<in> set (dedupLoop lib (acc @ [x]) cs)"
        using dedupLoop_keeps [of "acc @ [x]" lib cs] by auto
      with Cons.prems(2) False True show ?thesis by simp
    next
      case neq: False
      with Cons.prems False Cons.IH [of "acc @ [x]"] show ?thesis by simp
    qed
  qed
qed

lemma processColors_separated: "separated lib (processColors lib cm)"
  unfolding processColors_def by (rule dedupLoop_separated) (simp add: separated_def)

lemma allColors_categorize: "allColors (categorizeColors lib cm) = processColors lib cm"
  by (simp add: categorizeColors_def Let_def)

lemma threshold_15: "threshold * 100 = 15"
  by (simp add: threshold_def)

lemma tooClose_iff: "tooClose lib a b \<longleftrightarrow> (\<exists>d. deltaE lib a b = Some d \<and> d < 15)"
  by (simp add: tooClose_def threshold_15 split: option.splits)

section \<open>Categories\<close>

lemma sortedColors_alt:
  "sortedColors lib m =
     map fst (filter (\<lambda>e. chroma lib (fst e) \<noteq> None) (sortByCountDesc m))"
  by (simp add: sortedColors_def filter_map comp_def)

lemma sortedColors_set:
  "set (sortedColors lib m) = {c \<in> fst ` set m. chroma lib c \<noteq> None}"
  by (auto simp: sortedColors_def sortByCountDesc_def)

lemma sortedColors_distinct:
  "distinct (map fst m) \<Longrightarrow> distinct (sortedColors lib m)"
  by (simp add: sortedColors_def distinct_keys_sort)

lemma sortedColors_by_count:
  assumes d: "distinct (map fst m)" and ij: "i \<le> j" and j: "j < length (sortedColors lib m)"
  shows "mapGetOr0 m (sortedColors lib m ! j) \<le> mapGetOr0 m (sortedColors lib m ! i)"
proof -
  let ?f = "\<lambda>e::string \<times> nat. - int (snd e)"
  let ?ys = "filter (\<lambda>e. chroma lib (fst e) \<noteq> None) (sortByCountDesc m)"
  have len: "length (sortedColors lib m) = length ?ys" by (simp add: sortedColors_alt)
  have "sorted (map ?f (sortByCountDesc m))"
    unfolding sortByCountDesc_def by (rule sorted_sort_key)
  then have "sorted (map ?f ?ys)" by (rule sorted_filter)
  with ij j len have "map ?f ?ys ! i \<le> map ?f ?ys ! j"
    by (intro sorted_nth_mono) simp_all
  with ij j len have le: "snd (?ys ! j) \<le> snd (?ys ! i)" by simp
  have mem: "k < length ?ys \<Longrightarrow> ?ys ! k \<in> set m" for k
    using nth_mem [of k ?ys] by (simp add: sortByCountDesc_def)
  have val: "k < length ?ys \<Longrightarrow> mapGetOr0 m (sortedColors lib m ! k) = snd (?ys ! k)" for k
    using mem [of k] d by (simp add: sortedColors_alt mapGetOr0_entry)
  from le ij j len show ?thesis by (simp add: val)
qed

lemma categorize_threeColors:
  "categorizeColors sampleLib threeColors =
     \<lparr> primary = [''#ff0000'', ''#0000ff'', ''#ff0101''], secondary = [], accent = [],
       neutral = [], allColors = [''#ff0000'', ''#0000ff''] \<rparr>"
  by (simp add: categorizeColors_def processColors_def sortedColors_def sortByCountDesc_def
      isSimilar_def tooClose_def threshold_def isAccent_def isNeutral_def sampleLib_def
      threeColors_def)

lemma sortedColors_threeColors:
  "sortedColors sampleLib threeColors = [''#ff0000'', ''#0000ff'', ''#ff0101'']"
  by (simp add: sortedColors_def sortByCountDesc_def sampleLib_def threeColors_def)

lemma categorize_twoReds:
  "categorizeColors sampleLib twoReds =
     \<lparr> primary = [''#ff0000'', ''#ff0101''], secondary = [], accent = [], neutral = [],
       allColors = [''#ff0000''] \<rparr>"
  by (simp add: categorizeColors_def processColors_def sortedColors_def sortByCountDesc_def
      isSimilar_def tooClose_def threshold_def isAccent_def isNeutral_def sampleLib_def
      twoReds_def)

lemma isValidColor_reds:
  "isValidColor sampleLib ''#ff0000''" "isValidColor sampleLib ''#ff0101''"
  by (simp_all add: isValidColor_def sampleLib_def str_defs)

text \<open>The page with the two reds gives the colour map \<open>twoReds\<close>.\<close>

lemma collectColors_pageTwoReds: "collectColors sampleLib pageTwoReds = Inr twoReds"
  by (simp add: collectColors_def pageTwoReds_def blankPage_def inlineStyleColors_def
      colorProperties_def
      addColor_def isValidColor_reds mapIncr_def mapGetOr0_def str_defs twoReds_def)

text \<open>
  C2, as amended. The categories are cut from \<open>sortedColors\<close>: the keys of the colour map that
  the library parses, each once, in descending order of their counts. Near-duplicates are
  not removed from it. \<open>primary\<close> is its first three entries, \<open>secondary\<close> the next three,
  \<open>accent\<close> and \<open>neutral\<close> are drawn from it, and \<open>all\<close> is the separately deduplicated
  sequence of \<open>processColors\<close>. (The keys of a map are distinct.)
\<close>

theorem categories_from_sorted_colors:
  assumes "distinct (map fst colorMap)"
  shows "primary (categorizeColors lib colorMap) = take 3 (sortedColors lib colorMap) \<and>
         secondary (categorizeColors lib colorMap) = take 3 (drop 3 (sortedColors lib colorMap)) \<and>
         set (accent (categorizeColors lib colorMap)) \<subseteq> set (sortedColors lib colorMap) \<and>
         set (neutral (categorizeColors lib colorMap)) \<subseteq> set (sortedColors lib colorMap) \<and>
         set (sortedColors lib colorMap) = {c \<in> fst ` set colorMap. chroma lib c \<noteq> None} \<and>
         distinct (sortedColors lib colorMap) \<and>
         (\<forall>j < length (sortedColors lib colorMap). \<forall>i \<le> j.
            mapGetOr0 colorMap (sortedColors lib colorMap ! j)
              \<le> mapGetOr0 colorMap (sortedColors lib colorMap ! i)) \<and>
         allColors (categorizeColors lib colorMap) = processColors lib colorMap"
proof -
  have d: "distinct (sortedColors lib colorMap)"
    using assms by (rule sortedColors_distinct)
  have sec: "secondary (categorizeColors lib colorMap) = take 3 (drop 3 (sortedColors lib colorMap))"
    using filter_not_in_take [OF d, of 3] by (simp add: categorizeColors_def Let_def)
  have acc: "set (accent (categorizeColors lib colorMap)) \<subseteq> set (sortedColors lib colorMap)"
    by (auto simp: categorizeColors_def Let_def dest: in_set_takeD)
  have neu: "set (neutral (categorizeColors lib colorMap)) \<subseteq> set (sortedColors lib colorMap)"
    by (auto simp: categorizeColors_def Let_def dest: in_set_takeD)
  have pri: "primary (categorizeColors lib colorMap) = take 3 (sortedColors lib colorMap)"
    by (simp add: categorizeColors_def Let_def)
  have ord: "\<forall>j < length (sortedColors lib colorMap). \<forall>i \<le> j.
            mapGetOr0 colorMap (sortedColors lib colorMap ! j)
              \<le> mapGetOr0 colorMap (sortedColors lib colorMap ! i)"
    using sortedColors_by_count [OF assms] by blast
  show ?thesis
    using pri sec acc neu d ord sortedColors_set [of lib colorMap]
      allColors_categorize [of lib colorMap]
    by simp
qed

theorem categories_from_sorted_colors_witness:
  "distinct (map fst threeColors) \<and>
   primary (categorizeColors sampleLib threeColors) = [''#ff0000'', ''#0000ff'', ''#ff0101''] \<and>
   take 3 (sortedColors sampleLib threeColors) = [''#ff0000'', ''#0000ff'', ''#ff0101'']"
  using categories_from_sorted_colors [of threeColors sampleLib]
  by (simp add: categorize_threeColors sortedColors_threeColors) (simp add: threeColors_def)

text \<open>
  C2 as stated fails on the colour map of the page with the two reds: \<open>#ff0101\<close> is dropped
  from \<open>all\<close> as a near-duplicate of \<open>#ff0000\<close>, yet it is the second primary colour. So
  \<open>primary\<close> is not the first three entries of the deduplicated sequence, and a primary
  colour is missing from \<open>all\<close>.
\<close>

theorem primary_not_from_deduplicated:
  "primary (categorizeColors sampleLib twoReds) \<noteq> take 3 (allColors (categorizeColors sampleLib twoReds)) \<and>
   \<not> set (primary (categorizeColors sampleLib twoReds))
        \<subseteq> set (allColors (categorizeColors sampleLib twoReds))"
  by (simp add: categorize_twoReds)

lemma sampleLib_symmetric: "deltaE sampleLib a b = deltaE sampleLib b a"
  by (auto simp: sampleLib_def)

text \<open>
  C3. In the \<open>all\<close> sequence, the distance the code computes between a colour and any colour
  accepted before it is never below 15: whenever \<open>chroma.deltaE\<close> returns a number for the
  pair, the number is at least 15; for a symmetric distance this holds for every pair of
  different positions, in either order. A colour of the map is missing from \<open>all\<close> only if
  its distance to some accepted colour is below 15. And one step of the greedy pass drops the
  candidate exactly when its distance to some colour accepted so far is below 15.
\<close>

theorem dedup_invariant:
  "(\<forall>j < length (allColors (categorizeColors lib colorMap)). \<forall>i < j. \<forall>d.
      deltaE lib (allColors (categorizeColors lib colorMap) ! j)
        (allColors (categorizeColors lib colorMap) ! i) = Some d \<longrightarrow> 15 \<le> d) \<and>
   ((\<forall>a b. deltaE lib a b = deltaE lib b a) \<longrightarrow>
      (\<forall>i < length (allColors (categorizeColors lib colorMap)).
       \<forall>j < length (allColors (categorizeColors lib colorMap)). i \<noteq> j \<longrightarrow>
         (\<forall>d. deltaE lib (allColors (categorizeColors lib colorMap) ! i)
                (allColors (categorizeColors lib colorMap) ! j) = Some d \<longrightarrow> 15 \<le> d))) \<and>
   (\<forall>c \<in> fst ` set colorMap. c \<notin> set (allColors (categorizeColors lib colorMap)) \<longrightarrow>
      (\<exists>e \<in> set (allColors (categorizeColors lib colorMap)).
         \<exists>d. deltaE lib c e = Some d \<and> d < 15)) \<and>
   dedupLoop lib accepted (candidate # rest) =
     (if \<exists>e \<in> set accepted. \<exists>d. deltaE lib candidate e = Some d \<and> d < 15
      then dedupLoop lib accepted rest
      else dedupLoop lib (accepted @ [candidate]) rest)"
proof -
  let ?all = "allColors (categorizeColors lib colorMap)"
  have later: "\<forall>d. deltaE lib (?all ! j) (?all ! i) = Some d \<longrightarrow> 15 \<le> d"
    if "j < length ?all" and "i < j" for i j
  proof -
    have "\<not> tooClose lib (processColors lib colorMap ! j) (processColors lib colorMap ! i)"
      using that processColors_separated [of lib colorMap]
      by (simp add: separated_def allColors_categorize)
    then show ?thesis by (auto simp: tooClose_iff allColors_categorize)
  qed
  have both: "\<forall>d. deltaE lib (?all ! i) (?all ! j) = Some d \<longrightarrow> 15 \<le> d"
    if sym: "\<forall>a b. deltaE lib a b = deltaE lib b a"
      and "i < length ?all" and "j < length ?all" and "i \<noteq> j" for i j
  proof (cases "i < j")
    case True
    with later [of j i] that sym show ?thesis by metis
  next
    case False
    with that have "j < i" by simp
    with later [of i j] that show ?thesis by blast
  qed
  have dropped: "\<forall>c \<in> fst ` set colorMap. c \<notin> set ?all \<longrightarrow>
      (\<exists>e \<in> set ?all. \<exists>d. deltaE lib c e = Some d \<and> d < 15)"
  proof (intro ballI impI)
    fix c assume c: "c \<in> fst ` set colorMap" and n: "c \<notin> set ?all"
    from c have "c \<in> set (map fst (sortByCountDesc colorMap))"
      by (simp add: sortByCountDesc_def)
    with n dedupLoop_dropped [of c _ lib "[]"]
    have "\<exists>e \<in> set (processColors lib colorMap). tooClose lib c e"
      by (simp add: allColors_categorize processColors_def)
    then show "\<exists>e \<in> set ?all. \<exists>d. deltaE lib c e = Some d \<and> d < 15"
      by (simp add: tooClose_iff allColors_categorize)
  qed
  have step: "dedupLoop lib accepted (candidate # rest) =
     (if \<exists>e \<in> set accepted. \<exists>d. deltaE lib candidate e = Some d \<and> d < 15
      then dedupLoop lib accepted rest
      else dedupLoop lib (accepted @ [candidate]) rest)"
    by (auto simp: isSimilar_iff tooClose_iff)
  from later both dropped step show ?thesis by blast
qed

theorem dedup_invariant_witness:
  "1 < length (allColors (categorizeColors sampleLib threeColors)) \<and>
   deltaE sampleLib (allColors (categorizeColors sampleLib threeColors) ! 1)
     (allColors (categorizeColors sampleLib threeColors) ! 0) = Some 52.9 \<and>
   (\<forall>a b. deltaE sampleLib a b = deltaE sampleLib b a) \<and>
   deltaE sampleLib (allColors (categorizeColors sampleLib threeColors) ! 0)
     (allColors (categorizeColors sampleLib threeColors) ! 1) = Some 52.9 \<and>
   ''#ff0101'' \<in> fst ` set threeColors \<and>
   ''#ff0101'' \<notin> set (allColors (categorizeColors sampleLib threeColors)) \<and>
   deltaE sampleLib ''#ff0101'' ''#ff0000'' = Some 0.3"
proof -
  have vals: "deltaE sampleLib ''#0000ff'' ''#ff0000'' = Some 52.9"
    "deltaE sampleLib ''#ff0000'' ''#0000ff'' = Some 52.9"
    "deltaE sampleLib ''#ff0101'' ''#ff0000'' = Some 0.3"
    by (simp_all add: sampleLib_def)
  have mem: "''#ff0101'' \<in> fst ` set threeColors" by (simp add: threeColors_def)
  from dedup_invariant [of sampleLib threeColors] vals mem sampleLib_symmetric
  show ?thesis by (simp add: categorize_threeColors)
qed

text \<open>
  C10. For every colour map the three categories \<open>primary\<close>, \<open>secondary\<close> and \<open>accent\<close> are
  pairwise disjoint.
\<close>

theorem categories_disjoint:
  "set (primary (categorizeColors lib cm)) \<inter> set (secondary (categorizeColors lib cm)) = {} \<and>
   set (primary (categorizeColors lib cm)) \<inter> set (accent (categorizeColors lib cm)) = {} \<and>
   set (secondary (categorizeColors lib cm)) \<inter> set (accent (categorizeColors lib cm)) = {}"
proof -
  let ?s = "sortedColors lib cm"
  let ?p = "take 3 ?s"
  let ?q = "take 3 (filter (\<lambda>color. color \<notin> set ?p) ?s)"
  let ?a = "take 3 (filter (isAccent lib ?p ?q) ?s)"
  have ps: "set ?p \<inter> set ?q = {}"
    using take_filter_holds [of _ 3 "\<lambda>color. color \<notin> set ?p" ?s] by blast
  have acc: "x \<in> set ?a \<Longrightarrow> x \<notin> set ?p \<and> x \<notin> set ?q" for x
    using take_filter_holds [of x 3 "isAccent lib ?p ?q" ?s]
    by (simp add: isAccent_def split: option.splits)
  have pa: "set ?p \<inter> set ?a = {}" using acc by blast
  have qa: "set ?q \<inter> set ?a = {}" using acc by blast
  show ?thesis using ps pa qa by (simp add: categorizeColors_def Let_def)
qed

section \<open>Font-family normalisation\<close>

lemma firstMatch_at:
  "i < length ps \<Longrightarrow> patternTest (fst (ps ! i)) s \<Longrightarrow>
   (\<forall>j < i. \<not> patternTest (fst (ps ! j)) s) \<Longrightarrow> firstMatch ps s = Some (snd (ps ! i))"
proof (induction ps arbitrary: i)
  case Nil
  then show ?case by simp
next
  case (Cons p ps)
  obtain pat canon where p: "p = (pat, canon)" by (cases p)
  show ?case
  proof (cases i)
    case 0
    with Cons.prems p show ?thesis by simp
  next
    case (Suc k)
    with Cons.prems have "\<not> patternTest (fst ((p # ps) ! 0)) s" by blast
    with p have np: "\<not> patternTest pat s" by simp
    from Cons.prems Suc have "\<forall>j < k. \<not> patternTest (fst (ps ! j)) s" by auto
    with Cons.IH [of k] Cons.prems Suc have "firstMatch ps s = Some (snd (ps ! k))" by simp
    with np p Suc show ?thesis by simp
  qed
qed

lemma firstMatch_none:
  "(\<forall>p \<in> set ps. \<not> patternTest (fst p) s) \<Longrightarrow> firstMatch ps s = None"
  by (induction ps) auto

lemma trim_parts:
  "\<exists>a b. s = a @ trim s @ b \<and> (\<forall>c \<in> set a. isSpace c) \<and> (\<forall>c \<in> set b. isSpace c)"
proof -
  let ?t = "dropWhile isSpace s"
  let ?a = "takeWhile isSpace s"
  let ?b = "rev (takeWhile isSpace (rev ?t))"
  have "?t = rev (takeWhile isSpace (rev ?t) @ dropWhile isSpace (rev ?t))"
    by (simp only: takeWhile_dropWhile_id rev_rev_ident)
  also have "\<dots> = rev (dropWhile isSpace (rev ?t)) @ ?b"
    by (simp only: rev_append)
  finally have t: "?t = trim s @ ?b" by (simp only: trim_def)
  have "s = ?a @ ?t" by simp
  with t have "s = ?a @ trim s @ ?b" by simp
  moreover have "\<forall>c \<in> set ?a. isSpace c" by (auto dest: set_takeWhileD)
  moreover have "\<forall>c \<in> set ?b. isSpace c" by (auto dest: set_takeWhileD)
  ultimately show ?thesis by blast
qed

lemma last_dropWhile_eq:
  assumes "dropWhile P xs \<noteq> []"
  shows "last (dropWhile P xs) = last xs"
proof -
  have "last xs = last (takeWhile P xs @ dropWhile P xs)"
    by (simp only: takeWhile_dropWhile_id)
  also have "\<dots> = last (dropWhile P xs)" using assms by (rule last_appendR)
  finally show ?thesis by (rule sym)
qed

lemma trim_ends:
  assumes "trim s \<noteq> []"
  shows "\<not> isSpace (hd (trim s)) \<and> \<not> isSpace (last (trim s))"
proof -
  let ?t = "dropWhile isSpace s"
  let ?u = "dropWhile isSpace (rev ?t)"
  from assms have u: "?u \<noteq> []" by (simp only: trim_def rev_is_Nil_conv not_False_eq_True)
  have t: "?t \<noteq> []"
  proof
    assume "?t = []"
    then have "?u = []" by (simp only: rev.simps dropWhile.simps)
    with u show False ..
  qed
  have "last (trim s) = hd ?u" by (simp only: trim_def last_rev)
  moreover have "\<not> isSpace (hd ?u)" using u by (rule hd_dropWhile)
  moreover have "hd (trim s) = last ?u" by (simp only: trim_def hd_rev)
  moreover have "last ?u = last (rev ?t)" using u by (rule last_dropWhile_eq)
  moreover have "last (rev ?t) = hd ?t" by (rule last_rev)
  moreover have "\<not> isSpace (hd ?t)" using t by (rule hd_dropWhile)
  ultimately show ?thesis by simp
qed

lemma clean_timesQuoted: "trim (stripQuotes timesQuoted) = ''Times New Roman, Times''"
  by code_simp

lemma clean_futuraQuoted: "trim (stripQuotes futuraQuoted) = ''Futura''"
  by code_simp

lemma tests_timesQuoted:
  "map (\<lambda>p. patternTest (fst p) ''Times New Roman, Times'') fontFamilyPatterns =
     [False, False, True, True] @ replicate 37 False"
  by code_simp

lemma tests_futuraQuoted:
  "\<forall>p \<in> set fontFamilyPatterns. \<not> patternTest (fst p) ''Futura''"
  by code_simp

lemma third_pattern: "fontFamilyPatterns ! 2 = (''times new roman'', ''Times New Roman, serif'')"
  "fontFamilyPatterns ! 3 = (''times'', ''Times, serif'')"
  "length fontFamilyPatterns = 41"
  by (simp_all add: fontFamilyPatterns_def)

text \<open>
  C8. \<open>normalizeFontFamily\<close> removes the quote characters and trims, then walks the pattern
  list in order: if the cleaned string matches the pattern at position \<open>i\<close> and none before
  it, the result is the canonical name at position \<open>i\<close>, whatever later patterns match; if it
  matches no pattern, the result is the cleaned string itself. The cleaned string is the
  input without its quote characters and without the white space at its two ends, and a
  pattern matches when it occurs in the lower-cased string.
\<close>

theorem normalizeFontFamily_first_match:
  "(\<forall>i < length fontFamilyPatterns.
      patternTest (fst (fontFamilyPatterns ! i)) (trim (stripQuotes fontFamily)) \<and>
      (\<forall>j < i. \<not> patternTest (fst (fontFamilyPatterns ! j)) (trim (stripQuotes fontFamily)))
      \<longrightarrow> normalizeFontFamily fontFamily = snd (fontFamilyPatterns ! i)) \<and>
   ((\<forall>p \<in> set fontFamilyPatterns. \<not> patternTest (fst p) (trim (stripQuotes fontFamily)))
      \<longrightarrow> normalizeFontFamily fontFamily = trim (stripQuotes fontFamily)) \<and>
   (\<exists>a b. filter (\<lambda>c. c \<noteq> CHR 0x27 \<and> c \<noteq> CHR 0x22) fontFamily
            = a @ trim (stripQuotes fontFamily) @ b \<and>
          (\<forall>c \<in> set a. isSpace c) \<and> (\<forall>c \<in> set b. isSpace c)) \<and>
   (trim (stripQuotes fontFamily) \<noteq> [] \<longrightarrow>
      \<not> isSpace (hd (trim (stripQuotes fontFamily))) \<and>
      \<not> isSpace (last (trim (stripQuotes fontFamily)))) \<and>
   (patternTest pat s \<longleftrightarrow> sublist pat (toLowerCase s))"
proof -
  let ?clean = "trim (stripQuotes fontFamily)"
  have first: "\<forall>i < length fontFamilyPatterns.
      patternTest (fst (fontFamilyPatterns ! i)) ?clean \<and>
      (\<forall>j < i. \<not> patternTest (fst (fontFamilyPatterns ! j)) ?clean)
      \<longrightarrow> normalizeFontFamily fontFamily = snd (fontFamilyPatterns ! i)"
    by (auto simp: normalizeFontFamily_def Let_def firstMatch_at)
  have none: "(\<forall>p \<in> set fontFamilyPatterns. \<not> patternTest (fst p) ?clean)
      \<longrightarrow> normalizeFontFamily fontFamily = ?clean"
    by (auto simp: normalizeFontFamily_def Let_def firstMatch_none)
  have parts: "\<exists>a b. filter (\<lambda>c. c \<noteq> CHR 0x27 \<and> c \<noteq> CHR 0x22) fontFamily = a @ ?clean @ b \<and>
      (\<forall>c \<in> set a. isSpace c) \<and> (\<forall>c \<in> set b. isSpace c)"
    using trim_parts [of "stripQuotes fontFamily"] by (simp only: stripQuotes_def)
  have ends: "?clean \<noteq> [] \<longrightarrow> \<not> isSpace (hd ?clean) \<and> \<not> isSpace (last ?clean)"
    using trim_ends [of "stripQuotes fontFamily"] by blast
  have test: "patternTest pat s \<longleftrightarrow> sublist pat (toLowerCase s)"
    by (simp add: patternTest_def strIncludes_sublist)
  from first none parts ends test show ?thesis by blast
qed

theorem normalizeFontFamily_first_match_witness:
  "(2::nat) < length fontFamilyPatterns \<and>
   patternTest (fst (fontFamilyPatterns ! 2)) (trim (stripQuotes timesQuoted)) \<and>
   patternTest (fst (fontFamilyPatterns ! 3)) (trim (stripQuotes timesQuoted)) \<and>
   \<not> patternTest (fst (fontFamilyPatterns ! 0)) (trim (stripQuotes timesQuoted)) \<and>
   \<not> patternTest (fst (fontFamilyPatterns ! 1)) (trim (stripQuotes timesQuoted)) \<and>
   normalizeFontFamily timesQuoted = ''Times New Roman, serif'' \<and>
   filter (\<lambda>p. patternTest (fst p) (trim (stripQuotes futuraQuoted))) fontFamilyPatterns = [] \<and>
   normalizeFontFamily futuraQuoted = ''Futura''"
proof -
  let ?s = "trim (stripQuotes timesQuoted)"
  have len: "(2::nat) < length fontFamilyPatterns" by (simp add: third_pattern)
  have nth: "patternTest (fst (fontFamilyPatterns ! j)) ''Times New Roman, Times''
      = (([False, False, True, True] @ replicate 37 False) ! j)" if "j < 41" for j
    using that nth_map [of j fontFamilyPatterns "\<lambda>p. patternTest (fst p) ''Times New Roman, Times''"]
    by (simp only: tests_timesQuoted third_pattern)
  have p2: "patternTest (fst (fontFamilyPatterns ! 2)) ?s"
    using nth [of 2] by (simp add: clean_timesQuoted)
  have p3: "patternTest (fst (fontFamilyPatterns ! 3)) ?s"
    using nth [of 3] by (simp add: clean_timesQuoted)
  have before: "\<forall>j < 2. \<not> patternTest (fst (fontFamilyPatterns ! j)) ?s"
  proof (intro allI impI)
    fix j :: nat assume "j < 2"
    then have "j = 0 \<or> j = 1" by auto
    then show "\<not> patternTest (fst (fontFamilyPatterns ! j)) ?s"
      using nth [of 0] nth [of 1] by (auto simp: clean_timesQuoted)
  qed
  from normalizeFontFamily_first_match [of timesQuoted] len p2 before
  have "normalizeFontFamily timesQuoted = snd (fontFamilyPatterns ! 2)" by blast
  then have r1: "normalizeFontFamily timesQuoted = ''Times New Roman, serif''"
    by (simp add: third_pattern)
  have none: "\<forall>p \<in> set fontFamilyPatterns. \<not> patternTest (fst p) (trim (stripQuotes futuraQuoted))"
    using tests_futuraQuoted by (simp only: clean_futuraQuoted)
  with normalizeFontFamily_first_match [of futuraQuoted]
  have "normalizeFontFamily futuraQuoted = trim (stripQuotes futuraQuoted)" by blast
  then have r2: "normalizeFontFamily futuraQuoted = ''Futura''"
    by (simp only: clean_futuraQuoted)
  from none have empty:
    "filter (\<lambda>p. patternTest (fst p) (trim (stripQuotes futuraQuoted))) fontFamilyPatterns = []"
    by (simp add: filter_empty_conv)
  from before have "\<not> patternTest (fst (fontFamilyPatterns ! 0)) ?s"
    and "\<not> patternTest (fst (fontFamilyPatterns ! 1)) ?s"
    by simp_all
  with len p2 p3 r1 empty r2 show ?thesis by blast
qed

section \<open>Linked fonts\<close>

lemma map_of_mapSet: "map_of (mapSet m k v) = (map_of m)(k \<mapsto> v)"
  by (induction m) (auto simp: fun_eq_iff)

lemma mapGetOr0_mapIncr_same: "mapGetOr0 (mapIncr m k n) k = mapGetOr0 m k + n"
  by (simp add: mapGetOr0_def mapIncr_def map_of_mapSet)

lemma mapGetOr0_mapIncr_other: "k' \<noteq> k \<Longrightarrow> mapGetOr0 (mapIncr m k n) k' = mapGetOr0 m k'"
  by (simp add: mapGetOr0_def mapIncr_def map_of_mapSet)
















section \<open>Framework confidence\<close>

lemma matchCount_from:
  "foldl (\<lambda>n selector. if length (select page selector) > 0 then n + 1 else n) k sels =
     k + length (filter (\<lambda>sel. select page sel \<noteq> []) sels)"
  by (induction sels arbitrary: k) simp_all

lemma matchCount_filter:
  "matchCount page sels = length (filter (\<lambda>sel. select page sel \<noteq> []) sels)"
  using matchCount_from [of page 0 sels] by (simp add: matchCount_def)

lemma js_round_nearest:
  "real_of_int (js_round x) - 1 / 2 \<le> x \<and> x < real_of_int (js_round x) + 1 / 2"
  unfolding js_round_def by linarith

lemma js_round_percent:
  assumes "m \<le> t" and "0 < t"
  shows "0 \<le> js_round (real m / real t * 100) \<and> js_round (real m / real t * 100) \<le> 100"
proof -
  have q: "real m / real t \<le> 1" using assms by simp
  have "0 \<le> real m / real t * 100" by simp
  then have lo: "0 \<le> js_round (real m / real t * 100)" by (simp add: js_round_def)
  from q have "real m / real t * 100 + 1 / 2 < 101" by simp
  then have "\<lfloor>real m / real t * 100 + 1 / 2\<rfloor> < 101" by (simp add: floor_less_iff)
  then have "js_round (real m / real t * 100) \<le> 100" by (simp add: js_round_def)
  with lo show ?thesis by simp
qed

lemma cssFrameworks_nonempty: "(name, sels) \<in> set cssFrameworks \<Longrightarrow> 0 < length sels"
  by (auto simp: cssFrameworks_def)

lemma frameworks_names:
  "map fst (frameworks (analyzeLayout page)) =
     [''bootstrap'', ''tailwind'', ''foundation'', ''bulma'', ''materialize'']"
  by (simp add: analyzeLayout_def cssFrameworks_def)

lemma frameworks_lookup:
  "(name, sels) \<in> set cssFrameworks \<Longrightarrow>
     map_of (frameworks (analyzeLayout page)) name = Some (detectFramework page name sels)"
  by (auto simp: analyzeLayout_def cssFrameworks_def)

lemma detectFramework_confidence:
  "confidence (detectFramework page name sels) =
     js_round (real (length (filter (\<lambda>sel. select page sel \<noteq> []) sels)) / real (length sels) * 100)"
  by (simp add: detectFramework_def Let_def matchCount_filter)

lemma detectFramework_detected:
  "detected (detectFramework page name sels) \<longleftrightarrow> confidence (detectFramework page name sels) > 30"
  by (simp add: detectFramework_def Let_def)

lemma layout_pageBootstrapHalf:
  "frameworks (analyzeLayout pageBootstrapHalf) =
     [(''bootstrap'', \<lparr> detected = True, version = None, confidence = 50 \<rparr>),
      (''tailwind'', \<lparr> detected = False, version = None, confidence = 0 \<rparr>),
      (''foundation'', \<lparr> detected = False, version = None, confidence = 0 \<rparr>),
      (''bulma'', \<lparr> detected = False, version = None, confidence = 14 \<rparr>),
      (''materialize'', \<lparr> detected = True, version = None, confidence = 57 \<rparr>)]"
  by code_simp

lemma bootstrap_matches_pageBootstrapHalf:
  "length (filter (\<lambda>sel. select pageBootstrapHalf sel \<noteq> [])
        [''.container'', ''.row'', ''.col'', ''.navbar'', ''.card'', ''.btn'', ''.alert'',
         ''.badge'']) = 4"
  by code_simp

lemma bootstrap_in_cssFrameworks:
  "(''bootstrap'',
    [''.container'', ''.row'', ''.col'', ''.navbar'', ''.card'', ''.btn'', ''.alert'', ''.badge''])
     \<in> set cssFrameworks"
  by (simp add: cssFrameworks_def)

lemma layout_pageBootstrapThree:
  "frameworks (analyzeLayout pageBootstrapThree) =
     [(''bootstrap'', \<lparr> detected = True, version = None, confidence = 38 \<rparr>),
      (''tailwind'', \<lparr> detected = False, version = None, confidence = 0 \<rparr>),
      (''foundation'', \<lparr> detected = False, version = None, confidence = 0 \<rparr>),
      (''bulma'', \<lparr> detected = False, version = None, confidence = 14 \<rparr>),
      (''materialize'', \<lparr> detected = True, version = None, confidence = 43 \<rparr>)]"
  by code_simp

lemma bootstrap_matches_pageBootstrapThree:
  "length (filter (\<lambda>sel. select pageBootstrapThree sel \<noteq> [])
        [''.container'', ''.row'', ''.col'', ''.navbar'', ''.card'', ''.btn'', ''.alert'',
         ''.badge'']) = 3"
  by code_simp

text \<open>
  C6. The result of \<open>analyzeLayout\<close> has one entry for each of the five frameworks of the
  checklist, in its order. For every framework of the checklist, the confidence of its entry
  is the percentage of its selectors that match something on the page, rounded to the
  nearest integer with a half rounded up (it is the integer \<open>c\<close> with
  \<open>c - 1/2 \<le> matched / total * 100 < c + 1/2\<close>); it lies between 0 and 100, and the
  framework counts as detected exactly when the confidence exceeds 30. A page on which four
  of the eight Bootstrap selectors match gets the Bootstrap confidence 50, detected.
\<close>

theorem framework_confidence:
  "map fst (frameworks (analyzeLayout page)) =
     [''bootstrap'', ''tailwind'', ''foundation'', ''bulma'', ''materialize''] \<and>
   (\<forall>(name, sels) \<in> set cssFrameworks.
      \<exists>fw. map_of (frameworks (analyzeLayout page)) name = Some fw \<and>
        real_of_int (confidence fw) - 1 / 2
          \<le> real (length (filter (\<lambda>sel. select page sel \<noteq> []) sels))
              / real (length sels) * 100 \<and>
        real (length (filter (\<lambda>sel. select page sel \<noteq> []) sels))
              / real (length sels) * 100
          < real_of_int (confidence fw) + 1 / 2 \<and>
        0 \<le> confidence fw \<and> confidence fw \<le> 100 \<and>
        (detected fw \<longleftrightarrow> confidence fw > 30)) \<and>
   (length (filter (\<lambda>sel. select page sel \<noteq> [])
        [''.container'', ''.row'', ''.col'', ''.navbar'', ''.card'', ''.btn'', ''.alert'',
         ''.badge'']) = 4 \<longrightarrow>
      (\<exists>fw. map_of (frameworks (analyzeLayout page)) ''bootstrap'' = Some fw \<and>
         confidence fw = 50 \<and> detected fw))"
proof (intro conjI impI)
  show "map fst (frameworks (analyzeLayout page)) =
     [''bootstrap'', ''tailwind'', ''foundation'', ''bulma'', ''materialize'']"
    by (rule frameworks_names)
next
  show "\<forall>(name, sels) \<in> set cssFrameworks.
      \<exists>fw. map_of (frameworks (analyzeLayout page)) name = Some fw \<and>
        real_of_int (confidence fw) - 1 / 2
          \<le> real (length (filter (\<lambda>sel. select page sel \<noteq> []) sels))
              / real (length sels) * 100 \<and>
        real (length (filter (\<lambda>sel. select page sel \<noteq> []) sels))
              / real (length sels) * 100
          < real_of_int (confidence fw) + 1 / 2 \<and>
        0 \<le> confidence fw \<and> confidence fw \<le> 100 \<and>
        (detected fw \<longleftrightarrow> confidence fw > 30)"
  proof (clarify)
    fix name sels
    assume in_table: "(name, sels) \<in> set cssFrameworks"
    let ?fw = "detectFramework page name sels"
    let ?x = "real (length (filter (\<lambda>sel. select page sel \<noteq> []) sels))
              / real (length sels) * 100"
    have look: "map_of (frameworks (analyzeLayout page)) name = Some ?fw"
      using in_table by (rule frameworks_lookup)
    have pos: "0 < length sels" using in_table by (rule cssFrameworks_nonempty)
    have conf: "confidence ?fw = js_round ?x" by (rule detectFramework_confidence)
    have near: "real_of_int (confidence ?fw) - 1 / 2 \<le> ?x \<and>
        ?x < real_of_int (confidence ?fw) + 1 / 2"
      unfolding conf by (rule js_round_nearest)
    have det: "detected ?fw \<longleftrightarrow> confidence ?fw > 30" by (rule detectFramework_detected)
    have "length (filter (\<lambda>sel. select page sel \<noteq> []) sels) \<le> length sels" by simp
    from js_round_percent [OF this pos] conf
    have range: "0 \<le> confidence ?fw \<and> confidence ?fw \<le> 100" by simp
    from look near det range
    show "\<exists>fw. map_of (frameworks (analyzeLayout page)) name = Some fw \<and>
        real_of_int (confidence fw) - 1 / 2
          \<le> real (length (filter (\<lambda>sel. select page sel \<noteq> []) sels))
              / real (length sels) * 100 \<and>
        real (length (filter (\<lambda>sel. select page sel \<noteq> []) sels))
              / real (length sels) * 100
          < real_of_int (confidence fw) + 1 / 2 \<and>
        0 \<le> confidence fw \<and> confidence fw \<le> 100 \<and>
        (detected fw \<longleftrightarrow> confidence fw > 30)"
      by blast
  qed
next
  let ?sels = "[''.container'', ''.row'', ''.col'', ''.navbar'', ''.card'', ''.btn'', ''.alert'',
         ''.badge'']"
  assume four: "length (filter (\<lambda>sel. select page sel \<noteq> []) ?sels) = 4"
  have m: "map_of (frameworks (analyzeLayout page)) ''bootstrap'' =
      Some (detectFramework page ''bootstrap'' ?sels)"
    using bootstrap_in_cssFrameworks by (rule frameworks_lookup)
  have "confidence (detectFramework page ''bootstrap'' ?sels) =
      js_round (real (length (filter (\<lambda>sel. select page sel \<noteq> []) ?sels))
                / real (length ?sels) * 100)"
    by (rule detectFramework_confidence)
  then have c: "confidence (detectFramework page ''bootstrap'' ?sels) = 50"
    by (simp only: four) (simp add: js_round_def)
  then have "detected (detectFramework page ''bootstrap'' ?sels)"
    by (simp add: detectFramework_detected)
  with m c show "\<exists>fw. map_of (frameworks (analyzeLayout page)) ''bootstrap'' = Some fw \<and>
         confidence fw = 50 \<and> detected fw"
    by blast
qed

theorem framework_confidence_witness:
  "length (filter (\<lambda>sel. select pageBootstrapHalf sel \<noteq> [])
        [''.container'', ''.row'', ''.col'', ''.navbar'', ''.card'', ''.btn'', ''.alert'',
         ''.badge'']) = 4 \<and>
   map_of (frameworks (analyzeLayout pageBootstrapHalf)) ''bootstrap''
     = Some \<lparr> detected = True, version = None, confidence = 50 \<rparr> \<and>
   map_of (frameworks (analyzeLayout pageBootstrapHalf)) ''bulma''
     = Some \<lparr> detected = False, version = None, confidence = 14 \<rparr> \<and>
   length (filter (\<lambda>sel. select pageBootstrapThree sel \<noteq> [])
        [''.container'', ''.row'', ''.col'', ''.navbar'', ''.card'', ''.btn'', ''.alert'',
         ''.badge'']) = 3 \<and>
   (\<exists>fw. map_of (frameworks (analyzeLayout pageBootstrapThree)) ''bootstrap'' = Some fw \<and>
      confidence fw = 38 \<and> detected fw)"
proof -
  let ?sels = "[''.container'', ''.row'', ''.col'', ''.navbar'', ''.card'', ''.btn'', ''.alert'',
         ''.badge'']"
  note four = bootstrap_matches_pageBootstrapHalf
  note three = bootstrap_matches_pageBootstrapThree
  from framework_confidence [of pageBootstrapHalf] four
  have "\<exists>fw. map_of (frameworks (analyzeLayout pageBootstrapHalf)) ''bootstrap'' = Some fw \<and>
      confidence fw = 50 \<and> detected fw"
    by blast
  moreover have "map_of (frameworks (analyzeLayout pageBootstrapHalf)) ''bootstrap''
     = Some \<lparr> detected = True, version = None, confidence = 50 \<rparr>"
    by (simp add: layout_pageBootstrapHalf)
  moreover have "map_of (frameworks (analyzeLayout pageBootstrapHalf)) ''bulma''
     = Some \<lparr> detected = False, version = None, confidence = 14 \<rparr>"
    by (simp add: layout_pageBootstrapHalf)
  moreover have "\<exists>fw. map_of (frameworks (analyzeLayout pageBootstrapThree)) ''bootstrap'' = Some fw \<and>
      confidence fw = 38 \<and> detected fw"
  proof -
    from framework_confidence [of pageBootstrapThree] bootstrap_in_cssFrameworks
    have "\<exists>fw. map_of (frameworks (analyzeLayout pageBootstrapThree)) ''bootstrap'' = Some fw \<and>
        real_of_int (confidence fw) - 1 / 2
          \<le> real (length (filter (\<lambda>sel. select pageBootstrapThree sel \<noteq> []) ?sels))
              / real (length ?sels) * 100 \<and>
        real (length (filter (\<lambda>sel. select pageBootstrapThree sel \<noteq> []) ?sels))
              / real (length ?sels) * 100
          < real_of_int (confidence fw) + 1 / 2 \<and>
        (detected fw \<longleftrightarrow> confidence fw > 30)"
      by blast
    then obtain fw where
      look: "map_of (frameworks (analyzeLayout pageBootstrapThree)) ''bootstrap'' = Some fw"
      and lo: "real_of_int (confidence fw) - 1 / 2
          \<le> real (length (filter (\<lambda>sel. select pageBootstrapThree sel \<noteq> []) ?sels))
              / real (length ?sels) * 100"
      and hi: "real (length (filter (\<lambda>sel. select pageBootstrapThree sel \<noteq> []) ?sels))
              / real (length ?sels) * 100
          < real_of_int (confidence fw) + 1 / 2"
      and det: "detected fw \<longleftrightarrow> confidence fw > 30"
      by blast
    from lo have lo': "real_of_int (confidence fw) \<le> 38" by (simp only: three) simp
    from hi have hi': "37 < real_of_int (confidence fw)" by (simp only: three) simp
    from lo' hi' have "confidence fw = 38" by linarith
    with look det show ?thesis by simp
  qed
  ultimately show ?thesis using four three by blast
qed

section \<open>Selecting the most common items\<close>

lemma keys_mapSet: "fst ` set (mapSet m k v) = insert k (fst ` set m)"
proof (induction m)
  case Nil
  show ?case by simp
next
  case (Cons e m)
  obtain k' c where e: "e = (k', c)" by (cases e)
  show ?case
  proof (cases "k' = k")
    case True
    with e show ?thesis by auto
  next
    case False
    with e Cons.IH show ?thesis by auto
  qed
qed

lemma distinct_mapSet: "distinct (map fst m) \<Longrightarrow> distinct (map fst (mapSet m k v))"
proof (induction m)
  case Nil
  show ?case by simp
next
  case (Cons e m)
  obtain k' c where e: "e = (k', c)" by (cases e)
  show ?case
  proof (cases "k' = k")
    case True
    with Cons.prems e show ?thesis by simp
  next
    case False
    from Cons.prems e have "k' \<notin> fst ` set m" by auto
    with False have "k' \<notin> fst ` set (mapSet m k v)" by (simp add: keys_mapSet)
    with Cons e False show ?thesis by simp
  qed
qed

lemma countLoop_props:
  assumes "distinct (map fst m)"
  shows "distinct (map fst (foldl (\<lambda>frequency item. mapIncr frequency item 1) m items)) \<and>
         fst ` set (foldl (\<lambda>frequency item. mapIncr frequency item 1) m items)
           = fst ` set m \<union> set items \<and>
         (\<forall>k. mapGetOr0 (foldl (\<lambda>frequency item. mapIncr frequency item 1) m items) k
              = mapGetOr0 m k + count_list items k)"
  using assms
proof (induction items arbitrary: m)
  case Nil
  then show ?case by simp
next
  case (Cons x items)
  let ?m = "mapIncr m x 1"
  have d: "distinct (map fst ?m)" using Cons.prems by (simp add: mapIncr_def distinct_mapSet)
  have k: "fst ` set ?m = insert x (fst ` set m)" by (simp add: mapIncr_def keys_mapSet)
  have g: "mapGetOr0 ?m j = mapGetOr0 m j + (if x = j then 1 else 0)" for j
    by (cases "j = x") (simp_all add: mapGetOr0_mapIncr_same mapGetOr0_mapIncr_other)
  from Cons.IH [OF d] k g show ?case by auto
qed

lemma countItems_distinct: "distinct (map fst (countItems items))"
  using countLoop_props [of "[]" items] by (simp add: countItems_def)

lemma countItems_keys: "fst ` set (countItems items) = set items"
  using countLoop_props [of "[]" items] by (simp add: countItems_def)

lemma countItems_count: "mapGetOr0 (countItems items) k = count_list items k"
  using countLoop_props [of "[]" items] by (simp add: countItems_def mapGetOr0_def)

lemma countItems_entry: "e \<in> set (countItems items) \<Longrightarrow> snd e = count_list items (fst e)"
  using mapGetOr0_entry [OF countItems_distinct, of e items] by (simp add: countItems_count)

lemma countItems_length: "length (countItems items) = card (set items)"
proof -
  have "length (countItems items) = length (map fst (countItems items))" by simp
  also have "\<dots> = card (set (map fst (countItems items)))"
    using countItems_distinct [of items] by (rule distinct_card [symmetric])
  also have "\<dots> = card (set items)" by (simp add: countItems_keys)
  finally show ?thesis .
qed

lemma selectMostCommon_props:
  "distinct (selectMostCommon items n) \<and>
   set (selectMostCommon items n) \<subseteq> set items \<and>
   length (selectMostCommon items n) = min n (card (set items)) \<and>
   (\<forall>j < length (selectMostCommon items n). \<forall>i \<le> j.
      count_list items (selectMostCommon items n ! j)
        \<le> count_list items (selectMostCommon items n ! i)) \<and>
   (\<forall>x \<in> set items. x \<notin> set (selectMostCommon items n) \<longrightarrow>
      (\<forall>y \<in> set (selectMostCommon items n). count_list items x \<le> count_list items y))"
proof -
  let ?cm = "countItems items"
  let ?s = "sortByCountDesc ?cm"
  let ?r = "selectMostCommon items n"
  have r: "?r = take n (map fst ?s)" by (simp add: selectMostCommon_def take_map)
  have ds: "distinct (map fst ?s)" by (simp add: distinct_keys_sort countItems_distinct)
  have ss: "set ?s = set ?cm" by (simp add: sortByCountDesc_def)
  have ls: "length ?s = card (set items)" by (simp add: sortByCountDesc_def countItems_length)
  have cnt: "k < length ?s \<Longrightarrow> count_list items (fst (?s ! k)) = snd (?s ! k)" for k
    using countItems_entry [of "?s ! k" items] nth_mem [of k ?s] ss by simp
  have mono: "i \<le> j \<Longrightarrow> j < length ?s \<Longrightarrow>
      count_list items (fst (?s ! j)) \<le> count_list items (fst (?s ! i))" for i j
    using sortByCountDesc_nth_mono [of i j ?cm] cnt [of i] cnt [of j]
    by (simp add: sortByCountDesc_def)
  have d: "distinct ?r" using ds by (simp add: r distinct_take)
  have sub: "set ?r \<subseteq> set items"
  proof -
    have "set ?r \<subseteq> set (map fst ?s)" unfolding r by (rule set_take_subset)
    also have "\<dots> = set items" using ss by (simp add: countItems_keys)
    finally show ?thesis .
  qed
  have len: "length ?r = min n (card (set items))" by (simp add: r ls min.commute)
  have nth: "k < length ?r \<Longrightarrow> ?r ! k = fst (?s ! k)" for k by (simp add: r)
  have ord: "\<forall>j < length ?r. \<forall>i \<le> j.
      count_list items (?r ! j) \<le> count_list items (?r ! i)"
  proof (intro allI impI)
    fix j i assume j: "j < length ?r" and i: "i \<le> j"
    then have "j < length ?s" by (simp add: r)
    with mono [OF i] j i show "count_list items (?r ! j) \<le> count_list items (?r ! i)"
      by (simp add: nth)
  qed
  have out: "\<forall>x \<in> set items. x \<notin> set ?r \<longrightarrow>
      (\<forall>y \<in> set ?r. count_list items x \<le> count_list items y)"
  proof (intro ballI impI)
    fix x y assume x: "x \<in> set items" and nx: "x \<notin> set ?r" and y: "y \<in> set ?r"
    from x have "x \<in> set (map fst ?s)" using ss by (simp add: countItems_keys)
    then obtain k where k: "k < length ?s" and xk: "x = fst (?s ! k)"
      by (auto simp: in_set_conv_nth)
    from y obtain i where i: "i < length ?r" and yi: "y = ?r ! i"
      by (auto simp: in_set_conv_nth)
    have "n \<le> k"
    proof (rule ccontr)
      assume "\<not> n \<le> k"
      with k have "k < length ?r" by (simp add: r)
      with xk have "x \<in> set ?r" using nth [of k] nth_mem [of k ?r] by simp
      with nx show False ..
    qed
    with i have "i \<le> k" by (simp add: r)
    from mono [OF this k] xk yi i show "count_list items x \<le> count_list items y"
      by (simp add: nth)
  qed
  from d sub len ord out show ?thesis by blast
qed

lemma colorPalette_pools:
  "palPrimary (colorPalette lib analyses) =
     selectMostCommon (if pooled primary analyses \<noteq> [] then pooled primary analyses
                       else pooled allColors analyses) 3 \<and>
   palSecondary (colorPalette lib analyses) =
     selectMostCommon (if pooled secondary analyses \<noteq> [] then pooled secondary analyses
                       else drop 3 (pooled allColors analyses)) 3 \<and>
   palAccent (colorPalette lib analyses) =
     selectMostCommon (if pooled accent analyses \<noteq> [] then pooled accent analyses
                       else drop 6 (pooled allColors analyses)) 2 \<and>
   palNeutral (colorPalette lib analyses) =
     selectMostCommon (if pooled neutral analyses \<noteq> [] then pooled neutral analyses
                       else filter (extremeLuminance lib) (pooled allColors analyses)) 4"
  by (simp add: colorPalette_def pooled_def Let_def)

lemma selectMostCommon_scenario:
  assumes "A \<noteq> B" "A \<noteq> C" "B \<noteq> C"
  shows "selectMostCommon [A, A, B, A, C] 3 = [A, B, C]"
  using assms
  by (simp add: selectMostCommon_def countItems_def mapIncr_def mapGetOr0_def
      sortByCountDesc_def)

lemma analyze_pageOneRed:
  "analyzeWebsite sampleLib (\<lambda>u. Inr pageOneRed) ''2024-05-01T10:00:00.000Z''
     ''https://example.com'' = Inr redAnalysis"
  by code_simp

lemma select_two: "selectMostCommon [''#ff0000'', ''#ff0000'', ''#0000ff'', ''#ff0000'', ''#00ff00''] 2
    = [''#ff0000'', ''#0000ff'']"
  by code_simp

text \<open>
  C7, as amended. Each palette category is selected from its pool over all analyses, the
  top 3 for primary and secondary, 2 for accent and 4 for neutral; an empty pool is replaced
  by the pool of all colours for primary, by that pool without its first 3 entries for
  secondary and without its first 6 for accent, and for neutral by the colours of that pool
  that the library parses and whose luminance is above 0.8 or below 0.2. The selection
  counts the occurrences in the pool: it returns distinct items of the pool, as many as
  asked for if there are that many, in descending order of their counts, and no item left
  out occurs more often than a selected one. Merging the primary pools \<open>[A, A, B]\<close> and
  \<open>[A, C]\<close> counts \<open>A\<close> three times and selects \<open>[A, B, C]\<close>.
\<close>

theorem palette_selection:
  "palPrimary (colorPalette lib analyses) =
     selectMostCommon (if pooled primary analyses \<noteq> [] then pooled primary analyses
                       else pooled allColors analyses) 3 \<and>
   palSecondary (colorPalette lib analyses) =
     selectMostCommon (if pooled secondary analyses \<noteq> [] then pooled secondary analyses
                       else drop 3 (pooled allColors analyses)) 3 \<and>
   palAccent (colorPalette lib analyses) =
     selectMostCommon (if pooled accent analyses \<noteq> [] then pooled accent analyses
                       else drop 6 (pooled allColors analyses)) 2 \<and>
   palNeutral (colorPalette lib analyses) =
     selectMostCommon (if pooled neutral analyses \<noteq> [] then pooled neutral analyses
                       else filter (extremeLuminance lib) (pooled allColors analyses)) 4 \<and>
   distinct (selectMostCommon items n) \<and>
   set (selectMostCommon items n) \<subseteq> set items \<and>
   length (selectMostCommon items n) = min n (card (set items)) \<and>
   (\<forall>j < length (selectMostCommon items n). \<forall>i \<le> j.
      count_list items (selectMostCommon items n ! j)
        \<le> count_list items (selectMostCommon items n ! i)) \<and>
   (\<forall>x \<in> set items. x \<notin> set (selectMostCommon items n) \<longrightarrow>
      (\<forall>y \<in> set (selectMostCommon items n). count_list items x \<le> count_list items y)) \<and>
   (A \<noteq> B \<and> A \<noteq> C \<and> B \<noteq> C \<and> analyses = [a1, a2] \<and>
    primary (colors a1) = [A, A, B] \<and> primary (colors a2) = [A, C] \<longrightarrow>
      count_list (pooled primary analyses) A = 3 \<and>
      palPrimary (colorPalette lib analyses) = [A, B, C])"
proof -
  have "palPrimary (colorPalette lib analyses) = [A, B, C] \<and>
      count_list (pooled primary analyses) A = 3"
    if "A \<noteq> B \<and> A \<noteq> C \<and> B \<noteq> C \<and> analyses = [a1, a2] \<and>
      primary (colors a1) = [A, A, B] \<and> primary (colors a2) = [A, C]"
  proof -
    from that have p: "pooled primary analyses = [A, A, B, A, C]" by (simp add: pooled_def)
    from that have s: "selectMostCommon [A, A, B, A, C] 3 = [A, B, C]"
      by (intro selectMostCommon_scenario) simp_all
    have "palPrimary (colorPalette lib analyses) =
        selectMostCommon (if pooled primary analyses \<noteq> [] then pooled primary analyses
                          else pooled allColors analyses) 3"
      using colorPalette_pools [of lib analyses] by blast
    then have r: "palPrimary (colorPalette lib analyses) = [A, B, C]" by (simp add: p s)
    from that have "count_list [A, A, B, A, C] A = 3" by auto
    with r p show ?thesis by simp
  qed
  with colorPalette_pools [of lib analyses] selectMostCommon_props [of items n]
  show ?thesis by blast
qed

theorem palette_selection_witness:
  "primary (colors firstSite) = [''#ff0000'', ''#ff0000'', ''#0000ff''] \<and>
   primary (colors secondSite) = [''#ff0000'', ''#00ff00''] \<and>
   count_list (pooled primary [firstSite, secondSite]) ''#ff0000'' = 3 \<and>
   palPrimary (colorPalette sampleLib [firstSite, secondSite])
     = [''#ff0000'', ''#0000ff'', ''#00ff00''] \<and>
   selectMostCommon [''#ff0000'', ''#ff0000'', ''#0000ff'', ''#ff0000'', ''#00ff00''] 2
     = [''#ff0000'', ''#0000ff''] \<and>
   ''#00ff00'' \<in> set [''#ff0000'', ''#ff0000'', ''#0000ff'', ''#ff0000'', ''#00ff00''] \<and>
   ''#00ff00'' \<notin> set (selectMostCommon
       [''#ff0000'', ''#ff0000'', ''#0000ff'', ''#ff0000'', ''#00ff00''] 2)"
proof -
  have p1: "primary (colors firstSite) = [''#ff0000'', ''#ff0000'', ''#0000ff'']"
    by (simp add: firstSite_def sampleAnalysis_def)
  have p2: "primary (colors secondSite) = [''#ff0000'', ''#00ff00'']"
    by (simp add: secondSite_def sampleAnalysis_def)
  have ne: "''#ff0000'' \<noteq> ''#0000ff'' \<and> ''#ff0000'' \<noteq> ''#00ff00'' \<and> ''#0000ff'' \<noteq> ''#00ff00''"
    by simp
  from palette_selection [of sampleLib "[firstSite, secondSite]" "[]" 0 "''#ff0000''" "''#0000ff''"
      "''#00ff00''" firstSite secondSite] p1 p2 ne
  have "count_list (pooled primary [firstSite, secondSite]) ''#ff0000'' = 3 \<and>
      palPrimary (colorPalette sampleLib [firstSite, secondSite])
        = [''#ff0000'', ''#0000ff'', ''#00ff00'']"
    by blast
  with p1 p2 select_two show ?thesis by simp
qed

text \<open>
  C7 as stated fails for neutral: for the analysis of the page with one red element the
  neutral pool is empty, and the neutral palette is not selected from the pool of all
  colours (red has a middling luminance and is filtered out).
\<close>

theorem neutral_fallback_filtered:
  "pooled neutral [redAnalysis] = [] \<and>
   palNeutral (colorPalette sampleLib [redAnalysis])
     \<noteq> selectMostCommon (pooled allColors [redAnalysis]) 4"
  by code_simp

section \<open>The typography scales\<close>

text \<open>
  C5, as amended. The font-size scale and the line-height scale are the fixed default scales
  for every input, whatever the number of observed sizes and line heights: both branches of
  the sample-size test return the default, and so the two scales in the typography of the
  style guide are the defaults for every batch of analyses.
\<close>

theorem scales_always_default:
  "generateFontSizeScale sizes = defaultFontSizeScale \<and>
   generateLineHeightScale heights = defaultLineHeightScale \<and>
   sgFontSizes (styleTypography analyses) = defaultFontSizeScale \<and>
   sgLineHeights (styleTypography analyses) = defaultLineHeightScale"
proof -
  have a: "generateFontSizeScale s = defaultFontSizeScale" for s
    by (simp add: generateFontSizeScale_def)
  have b: "generateLineHeightScale h = defaultLineHeightScale" for h
    by (simp add: generateLineHeightScale_def)
  have "sgFontSizes (styleTypography analyses) = defaultFontSizeScale \<and>
      sgLineHeights (styleTypography analyses) = defaultLineHeightScale"
    by (simp add: styleTypography_def Let_def a b)
  with a b show ?thesis by simp
qed

lemma fiveSizes_pool: "selectMostCommonFromObjects fiveSizes 5 = fiveSizes"
  by code_simp

text \<open>
  C5 as stated fails with five observed sizes: the pool reaches the minimum sample size and
  the scale is still the default.
\<close>

theorem default_scale_at_five_sizes:
  "\<not> (generateFontSizeScale (selectMostCommonFromObjects fiveSizes 5) = defaultFontSizeScale
        \<longleftrightarrow> length (selectMostCommonFromObjects fiveSizes 5) < 5)"
  by (simp add: fiveSizes_pool generateFontSizeScale_def) (simp add: fiveSizes_def)

section \<open>The empty batch\<close>

lemma styleGuide_nil: "styleGuide lib [] = emptyStyleGuide"
  by (simp add: styleGuide_def emptyStyleGuide_def colorPalette_def selectMostCommon_def
      countItems_def sortByCountDesc_def shadesOf_def styleTypography_def
      selectMostCommonFromObjects_def generateFontSizeScale_def generateLineHeightScale_def
      generateComponentSpecs_def recommendFramework_def layoutFrameworks_def
      List.map_filter_simps)

text \<open>
  The documentation cannot be rendered, so \<open>generateStyleGuide\<close> throws for every batch,
  and the route answers 500 for every list of URLs that it accepts.
\<close>

lemma generateStyleGuide_throws:
  "generateStyleGuide lib saveDocsToFile analyses = Inl (ReferenceError ''asset is not defined'')"
  by (simp add: generateStyleGuide_def generateDocs_def generateMarkdownDocs_def)

lemma analyzeMultiple_accepted:
  "0 < length urls \<Longrightarrow> length urls \<le> 5 \<Longrightarrow>
     analyzeMultiple lib fetch now saveDocsToFile urls = Failed"
  by (simp add: analyzeMultiple_def generateStyleGuide_throws split: option.splits)

text \<open>
  C1, as amended. \<open>generateStyleGuide\<close> has no check of its own on the batch: applied to no
  analyses it builds a style guide as for any batch, the one with an empty palette, no shade
  ramps, the default scales, zero counts and no recommended framework, and hands it to
  \<open>generateDocs\<close>; its outcome is the outcome of that call, and no error is raised on account
  of the empty batch. The empty batch is refused by the caller: the route answers 400 for an
  empty list of URLs and does not call \<open>generateStyleGuide\<close>.
\<close>

theorem empty_batch_no_check:
  "styleGuide lib [] = emptyStyleGuide \<and>
   generateStyleGuide lib saveDocsToFile [] =
     (case generateDocs saveDocsToFile emptyStyleGuide of
        Inl e \<Rightarrow> Inl e
      | Inr filePath \<Rightarrow> Inr (emptyStyleGuide \<lparr> documentation := Some filePath \<rparr>)) \<and>
   analyzeMultiple lib fetch now saveDocsToFile [] = Rejected ''URLs array is required''"
  unfolding generateStyleGuide_def styleGuide_nil by (simp add: analyzeMultiple_def)

text \<open>
  C1 as stated fails: for the empty batch the whole style guide is built first, and the
  error that follows is not a precondition error on the batch but the \<open>ReferenceError\<close> of
  the documentation, the same as for a batch of one analysis.
\<close>

theorem empty_batch_error_not_precondition:
  "styleGuide sampleLib [] = emptyStyleGuide \<and>
   generateStyleGuide sampleLib (\<lambda>markdown. Inr ''/tmp/style-guide-docs-1.md'') []
     = Inl (ReferenceError ''asset is not defined'') \<and>
   generateStyleGuide sampleLib (\<lambda>markdown. Inr ''/tmp/style-guide-docs-1.md'') [redAnalysis]
     = Inl (ReferenceError ''asset is not defined'')"
  by (simp add: styleGuide_nil generateStyleGuide_throws)

section \<open>Two analyses of one page\<close>

lemma analyze_pageTwoReds:
  "analyzeWebsite sampleLib (\<lambda>u. Inr pageTwoReds) t u = Inr (sampleAnalysis u twoRedsColors t)"
  by code_simp

text \<open>
  C4, as amended. Two calls of \<open>analyzeWebsite\<close> on the same page agree in everything but
  the timestamp, which is the clock reading of each call: if one call returns an analysis,
  the other returns the same analysis with its own timestamp, and if one fails, the other
  fails with the same error.
\<close>

theorem analyses_equal_up_to_timestamp:
  "(\<forall>a. analyzeWebsite lib fetch t1 u = Inr a \<longrightarrow>
      timestamp a = t1 \<and> analyzeWebsite lib fetch t2 u = Inr (a\<lparr> timestamp := t2 \<rparr>)) \<and>
   (\<forall>e. analyzeWebsite lib fetch t1 u = Inl e \<longrightarrow> analyzeWebsite lib fetch t2 u = Inl e)"
  by (auto simp: analyzeWebsite_def split: sum.splits)

theorem analyses_equal_up_to_timestamp_witness:
  "analyzeWebsite sampleLib (\<lambda>u. Inr pageTwoReds) ''2024-05-01T10:00:00.000Z'' ''https://example.com''
     = Inr (sampleAnalysis ''https://example.com'' twoRedsColors ''2024-05-01T10:00:00.000Z'') \<and>
   analyzeWebsite sampleLib (\<lambda>u. Inr pageTwoReds) ''2024-05-01T10:00:07.000Z'' ''https://example.com''
     = Inr (sampleAnalysis ''https://example.com'' twoRedsColors ''2024-05-01T10:00:07.000Z'') \<and>
   analyzeWebsite sampleLib (\<lambda>u. Inl (FetchError ''timeout'')) ''2024-05-01T10:00:07.000Z''
     ''https://example.com'' = Inl (AnalysisFailed (FetchError ''timeout''))"
proof -
  note a = analyze_pageTwoReds [of "''2024-05-01T10:00:00.000Z''" "''https://example.com''"]
  from analyses_equal_up_to_timestamp [of sampleLib "\<lambda>u. Inr pageTwoReds" "''2024-05-01T10:00:00.000Z''"
      "''https://example.com''" "''2024-05-01T10:00:07.000Z''"] a
  have "analyzeWebsite sampleLib (\<lambda>u. Inr pageTwoReds) ''2024-05-01T10:00:07.000Z''
      ''https://example.com''
     = Inr ((sampleAnalysis ''https://example.com'' twoRedsColors ''2024-05-01T10:00:00.000Z'')
          \<lparr> timestamp := ''2024-05-01T10:00:07.000Z'' \<rparr>)"
    by blast
  then have b: "analyzeWebsite sampleLib (\<lambda>u. Inr pageTwoReds) ''2024-05-01T10:00:07.000Z''
      ''https://example.com''
     = Inr (sampleAnalysis ''https://example.com'' twoRedsColors ''2024-05-01T10:00:07.000Z'')"
    by (simp add: sampleAnalysis_def)
  have f: "analyzeWebsite sampleLib (\<lambda>u. Inl (FetchError ''timeout'')) ''2024-05-01T10:00:00.000Z''
     ''https://example.com'' = Inl (AnalysisFailed (FetchError ''timeout''))"
    by (simp add: analyzeWebsite_def)
  from analyses_equal_up_to_timestamp [of sampleLib "\<lambda>u. Inl (FetchError ''timeout'')" "''2024-05-01T10:00:00.000Z''"
      "''https://example.com''" "''2024-05-01T10:00:07.000Z''"] f
  have c: "analyzeWebsite sampleLib (\<lambda>u. Inl (FetchError ''timeout'')) ''2024-05-01T10:00:07.000Z''
     ''https://example.com'' = Inl (AnalysisFailed (FetchError ''timeout''))"
    by blast
  from a b c show ?thesis by blast
qed

text \<open>
  C4 as stated fails: two analyses of the same page made seven seconds apart differ (in the
  timestamp).
\<close>

theorem analyses_differ_in_timestamp:
  "analyzeWebsite sampleLib (\<lambda>u. Inr pageTwoReds) ''2024-05-01T10:00:00.000Z'' ''https://example.com''
   \<noteq> analyzeWebsite sampleLib (\<lambda>u. Inr pageTwoReds) ''2024-05-01T10:00:07.000Z''
       ''https://example.com''"
  by (simp add: analyze_pageTwoReds sampleAnalysis_def)

end
